theory Spec2Isabelle
  imports Main "HOL-Library.Word"
begin

unbundle bit_operations_syntax

section \<open>The short-link redirector (worker/redirect.ts)\<close>

text \<open>
  The redirector answers \<^verbatim>\<open>GET /:code\<close>: it looks the short link up, checks expiry,
  the visit limit, the password and the interstitial ticket in that order, and answers
  with an error page, a challenge page or the redirect, recording a visit event for a
  link it has found. This theory embeds the handler and the helpers it calls.

  Conventions of the embedding.
  \<^item> A JavaScript string is modelled as its UTF-8 byte string (\<^typ>\<open>string\<close>), so
    \<^verbatim>\<open>TextEncoder.encode\<close> and \<^verbatim>\<open>TextDecoder.decode\<close> are the identity on the bytes
    (well-formed UTF-8 without a byte-order mark).
  \<^item> Integer columns and \<^verbatim>\<open>Math.floor(Date.now() / 1000)\<close> are \<^typ>\<open>int\<close>; JavaScript
    numbers agree with them below \<open>2^53\<close>. A column typed \<^verbatim>\<open>T | null\<close> is a
    \<^typ>\<open>'a option\<close>.
  \<^item> The D1 database is a record of tables (lists of rows); a \<^verbatim>\<open>.first()\<close> query is
    the first matching row in table order. Writes return the updated database.
  \<^item> \<^verbatim>\<open>waitUntil\<close> work is modelled as done: the handler returns its response together
    with the database after the dispatched inserts and updates.
  \<^item> Calls into the platform are taken to succeed: database and bucket reads return, and
    the signing secret is not empty (\<^verbatim>\<open>importKey\<close> is specified to reject an empty HMAC
    key; the init endpoint demands a secret of more than ten characters).
\<close>

subsection \<open>JavaScript values\<close>

text \<open>Truthiness of a \<^verbatim>\<open>number | null\<close> and of a \<^verbatim>\<open>string | null | undefined\<close>.\<close>

fun truthy_num :: "int option \<Rightarrow> bool" where
  "truthy_num None = False"
| "truthy_num (Some n) = (n \<noteq> 0)"

fun truthy_str :: "string option \<Rightarrow> bool" where
  "truthy_str None = False"
| "truthy_str (Some s) = (s \<noteq> [])"

text \<open>\<^verbatim>\<open>x || null\<close> on an optional string: the empty string becomes null.\<close>

definition or_null :: "string option \<Rightarrow> string option" where
  "or_null x = (if truthy_str x then x else None)"

text \<open>
  The number that \<^verbatim>\<open>parseInt\<close> returns: an integer or NaN. Every comparison with NaN
  is false and arithmetic on NaN gives NaN.
\<close>

datatype js_number = Num int | NaN

fun js_sub :: "js_number \<Rightarrow> js_number \<Rightarrow> js_number" where
  "js_sub (Num a) (Num b) = Num (a - b)"
| "js_sub _ _ = NaN"

fun js_ge :: "js_number \<Rightarrow> js_number \<Rightarrow> bool" where
  "js_ge (Num a) (Num b) = (a \<ge> b)"
| "js_ge _ _ = False"

fun js_le :: "js_number \<Rightarrow> js_number \<Rightarrow> bool" where
  "js_le (Num a) (Num b) = (a \<le> b)"
| "js_le _ _ = False"

text \<open>\<^verbatim>\<open>String(n)\<close> of an integer: decimal digits, with a minus sign when negative.\<close>

definition digit_char :: "nat \<Rightarrow> char" where
  "digit_char d = char_of (48 + d)"

fun string_of_nat :: "nat \<Rightarrow> string" where
  "string_of_nat n = (if n < 10 then [digit_char n] else string_of_nat (n div 10) @ [digit_char (n mod 10)])"

definition string_of_int :: "int \<Rightarrow> string" where
  "string_of_int i = (if i < 0 then CHR ''-'' # string_of_nat (nat (- i)) else string_of_nat (nat i))"

fun String :: "js_number \<Rightarrow> string" where
  "String (Num i) = string_of_int i"
| "String NaN = ''NaN''"

text \<open>
  \<^verbatim>\<open>parseInt(s, 10)\<close>: skip leading white space, read an optional sign, then the longest
  run of decimal digits; NaN when there is no digit. Only the ASCII white space
  characters are modelled.
\<close>

definition is_space :: "char \<Rightarrow> bool" where
  "is_space c = (c \<in> set [CHR 0x09, CHR 0x0A, CHR 0x0B, CHR 0x0C, CHR 0x0D, CHR 0x20])"

definition is_digit :: "char \<Rightarrow> bool" where
  "is_digit c = (48 \<le> (of_char c :: nat) \<and> (of_char c :: nat) \<le> 57)"

definition digits_value :: "string \<Rightarrow> nat" where
  "digits_value ds = foldl (\<lambda>acc c. 10 * acc + ((of_char c :: nat) - 48)) 0 ds"

definition parseInt :: "string \<Rightarrow> js_number" where
  "parseInt s =
     (let s1 = dropWhile is_space s;
          neg = (s1 \<noteq> [] \<and> hd s1 = CHR ''-'');
          s2 = (if s1 \<noteq> [] \<and> (hd s1 = CHR ''-'' \<or> hd s1 = CHR ''+'') then tl s1 else s1);
          ds = takeWhile is_digit s2
      in if ds = [] then NaN
         else if neg then Num (- int (digits_value ds)) else Num (int (digits_value ds)))"

subsection \<open>SHA-256 and HMAC (the Web Crypto calls of generateHmacSignature)\<close>

text \<open>
  \<^verbatim>\<open>crypto.subtle.importKey('raw', key, {name: 'HMAC', hash: 'SHA-256'})\<close> and
  \<^verbatim>\<open>crypto.subtle.sign('HMAC', key, message)\<close> compute HMAC (RFC 2104) over SHA-256
  (FIPS 180-4). Both are written out here on bytes.
\<close>

type_synonym byte = "8 word"
type_synonym w32 = "32 word"

definition K256 :: "w32 list" where
  "K256 =
    [0x428A2F98, 0x71374491, 0xB5C0FBCF, 0xE9B5DBA5, 0x3956C25B, 0x59F111F1, 0x923F82A4, 0xAB1C5ED5,
     0xD807AA98, 0x12835B01, 0x243185BE, 0x550C7DC3, 0x72BE5D74, 0x80DEB1FE, 0x9BDC06A7, 0xC19BF174,
     0xE49B69C1, 0xEFBE4786, 0x0FC19DC6, 0x240CA1CC, 0x2DE92C6F, 0x4A7484AA, 0x5CB0A9DC, 0x76F988DA,
     0x983E5152, 0xA831C66D, 0xB00327C8, 0xBF597FC7, 0xC6E00BF3, 0xD5A79147, 0x06CA6351, 0x14292967,
     0x27B70A85, 0x2E1B2138, 0x4D2C6DFC, 0x53380D13, 0x650A7354, 0x766A0ABB, 0x81C2C92E, 0x92722C85,
     0xA2BFE8A1, 0xA81A664B, 0xC24B8B70, 0xC76C51A3, 0xD192E819, 0xD6990624, 0xF40E3585, 0x106AA070,
     0x19A4C116, 0x1E376C08, 0x2748774C, 0x34B0BCB5, 0x391C0CB3, 0x4ED8AA4A, 0x5B9CCA4F, 0x682E6FF3,
     0x748F82EE, 0x78A5636F, 0x84C87814, 0x8CC70208, 0x90BEFFFA, 0xA4506CEB, 0xBEF9A3F7, 0xC67178F2]"

definition Ch :: "w32 \<Rightarrow> w32 \<Rightarrow> w32 \<Rightarrow> w32" where
  "Ch x y z = (x AND y) XOR (NOT x AND z)"

definition Maj :: "w32 \<Rightarrow> w32 \<Rightarrow> w32 \<Rightarrow> w32" where
  "Maj x y z = (x AND y) XOR (x AND z) XOR (y AND z)"

definition bsig0 :: "w32 \<Rightarrow> w32" where
  "bsig0 x = word_rotr 2 x XOR word_rotr 13 x XOR word_rotr 22 x"

definition bsig1 :: "w32 \<Rightarrow> w32" where
  "bsig1 x = word_rotr 6 x XOR word_rotr 11 x XOR word_rotr 25 x"

definition ssig0 :: "w32 \<Rightarrow> w32" where
  "ssig0 x = word_rotr 7 x XOR word_rotr 18 x XOR drop_bit 3 x"

definition ssig1 :: "w32 \<Rightarrow> w32" where
  "ssig1 x = word_rotr 17 x XOR word_rotr 19 x XOR drop_bit 10 x"

text \<open>Big-endian conversions between bytes and words.\<close>

definition be32 :: "byte list \<Rightarrow> w32" where
  "be32 bs = foldl (\<lambda>acc b. push_bit 8 acc OR ucast b) 0 bs"

definition bytes_of_w32 :: "w32 \<Rightarrow> byte list" where
  "bytes_of_w32 w = [ucast (drop_bit 24 w), ucast (drop_bit 16 w), ucast (drop_bit 8 w), ucast w]"

definition bytes_of_len :: "nat \<Rightarrow> byte list" where
  "bytes_of_len n = map (\<lambda>i. ucast (drop_bit (8 * i) (word_of_nat n :: 64 word))) [7, 6, 5, 4, 3, 2, 1, 0]"

definition sha_pad :: "byte list \<Rightarrow> byte list" where
  "sha_pad m = m @ [0x80] @ replicate ((119 - length m mod 64) mod 64) 0 @ bytes_of_len (8 * length m)"

fun chunks :: "nat \<Rightarrow> 'a list \<Rightarrow> 'a list list" where
  "chunks n [] = []"
| "chunks n (x # xs) = take n (x # xs) # chunks n (drop (n - 1) xs)"

fun extend_schedule :: "nat \<Rightarrow> w32 list \<Rightarrow> w32 list" where
  "extend_schedule 0 w = w"
| "extend_schedule (Suc n) w =
     (let t = length w
      in extend_schedule n
           (w @ [ssig1 (w ! (t - 2)) + w ! (t - 7) + ssig0 (w ! (t - 15)) + w ! (t - 16)]))"

type_synonym sha_state = "w32 \<times> w32 \<times> w32 \<times> w32 \<times> w32 \<times> w32 \<times> w32 \<times> w32"

fun sha_round :: "sha_state \<Rightarrow> w32 \<times> w32 \<Rightarrow> sha_state" where
  "sha_round (a, b, c, d, e, f, g, h) (k, w) =
     (let t1 = h + bsig1 e + Ch e f g + k + w;
          t2 = bsig0 a + Maj a b c
      in (t1 + t2, a, b, c, d + t1, e, f, g))"

fun sha_add :: "sha_state \<Rightarrow> sha_state \<Rightarrow> sha_state" where
  "sha_add (a, b, c, d, e, f, g, h) (a', b', c', d', e', f', g', h') =
     (a + a', b + b', c + c', d + d', e + e', f + f', g + g', h + h')"

definition sha_block :: "sha_state \<Rightarrow> byte list \<Rightarrow> sha_state" where
  "sha_block st blk =
     (let w = extend_schedule 48 (map be32 (chunks 4 blk))
      in sha_add st (foldl sha_round st (zip K256 w)))"

definition sha_init :: sha_state where
  "sha_init = (0x6A09E667, 0xBB67AE85, 0x3C6EF372, 0xA54FF53A,
               0x510E527F, 0x9B05688C, 0x1F83D9AB, 0x5BE0CD19)"

fun sha_output :: "sha_state \<Rightarrow> byte list" where
  "sha_output (a, b, c, d, e, f, g, h) = concat (map bytes_of_w32 [a, b, c, d, e, f, g, h])"

definition sha256 :: "byte list \<Rightarrow> byte list" where
  "sha256 m = sha_output (foldl sha_block sha_init (chunks 64 (sha_pad m)))"

definition hmac_sha256 :: "byte list \<Rightarrow> byte list \<Rightarrow> byte list" where
  "hmac_sha256 key msg =
     (let k0 = (if length key > 64 then sha256 key else key);
          kp = k0 @ replicate (64 - length k0) 0
      in sha256 (map (\<lambda>b. b XOR 0x5c) kp @ sha256 (map (\<lambda>b. b XOR 0x36) kp @ msg)))"

text \<open>\<^verbatim>\<open>new TextEncoder().encode(s)\<close> on the byte-string model.\<close>

definition encode :: "string \<Rightarrow> byte list" where
  "encode s = map of_char s"

text \<open>\<^verbatim>\<open>b.toString(16).padStart(2, '0')\<close>, joined.\<close>

definition hex_digit :: "nat \<Rightarrow> char" where
  "hex_digit d = (if d < 10 then char_of (48 + d) else char_of (87 + d))"

definition hex_byte :: "byte \<Rightarrow> string" where
  "hex_byte b = [hex_digit (unat b div 16), hex_digit (unat b mod 16)]"

definition hex_of_bytes :: "byte list \<Rightarrow> string" where
  "hex_of_bytes bs = concat (map hex_byte bs)"

subsection \<open>The interstitial ticket: generateHmacSignature and verifyHmacSignature\<close>

definition ticket_data :: "js_number \<Rightarrow> string \<Rightarrow> string \<Rightarrow> string" where
  "ticket_data timestamp host code = String timestamp @ '':'' @ host @ '':'' @ code"

definition generateHmacSignature :: "string \<Rightarrow> js_number \<Rightarrow> string \<Rightarrow> string \<Rightarrow> string" where
  "generateHmacSignature secret timestamp host code =
     hex_of_bytes (hmac_sha256 (encode secret) (encode (ticket_data timestamp host code)))"

definition verifyHmacSignature :: "string \<Rightarrow> js_number \<Rightarrow> string \<Rightarrow> string \<Rightarrow> string \<Rightarrow> bool" where
  "verifyHmacSignature secret timestamp host code providedSignature =
     (let expectedSignature = generateHmacSignature secret timestamp host code
      in expectedSignature = providedSignature)"

subsection \<open>Tables and rows\<close>

text \<open>
  Field names carry a prefix per record (\<open>sl_\<close> short_links, \<open>dom_\<close> domains,
  \<open>tpl_\<close> redirect_templates, \<open>ast_\<close> template_assets, \<open>ev_\<close> link_visit_events);
  after the prefix they are the column names of the source.
\<close>

record ShortLinkRow =
  sl_id :: int
  sl_domain_id :: int
  sl_code :: string
  sl_target_url :: string
  sl_redirect_http_code :: int
  sl_use_interstitial :: int
  sl_interstitial_delay :: int
  sl_force_interstitial :: int
  sl_template_id :: "int option"
  sl_password :: "string option"
  sl_max_visits :: "int option"
  sl_expire_at :: "int option"
  sl_is_disabled :: int
  sl_deleted_at :: "int option"
  sl_total_clicks :: int
  sl_last_access_at :: "int option"
  sl_password_template_id :: "int option"
  sl_error_template_id :: "int option"

text \<open>
  The row that the handler's query returns (interface ShortLink): \<^verbatim>\<open>sl.*\<close> together with
  three columns of the joined domain.
\<close>

record ShortLink = ShortLinkRow +
  domain_host :: string
  domain_password_template_id :: "int option"
  domain_error_template_id :: "int option"

record Domain =
  dom_id :: int
  dom_host :: string
  dom_is_active :: int
  dom_error_template_id :: "int option"
  dom_password_template_id :: "int option"
  dom_interstitial_template_id :: "int option"

record RedirectTemplate =
  tpl_id :: int
  tpl_is_active :: int
  tpl_content_type :: int
  tpl_html_content :: "string option"
  tpl_main_file :: "string option"
  tpl_asset_prefix :: "string option"

record TemplateAsset =
  ast_asset_prefix :: string
  ast_filename :: string
  ast_storage_type :: int
  ast_content :: "string option"
  ast_r2_key :: "string option"

record VisitEventData =
  ev_short_link_id :: int
  ev_domain_id :: int
  ev_code :: string
  ev_visited_at :: int
  ev_ip :: "string option"
  ev_ua :: "string option"
  ev_referer :: "string option"
  ev_country :: "string option"
  ev_region :: "string option"
  ev_city :: "string option"
  ev_device_type :: "string option"
  ev_os :: "string option"
  ev_browser :: "string option"
  ev_is_blocked :: int
  ev_block_reason :: "string option"
  ev_http_status :: int

record Database =
  short_links :: "ShortLinkRow list"
  domains :: "Domain list"
  redirect_templates :: "RedirectTemplate list"
  template_assets :: "TemplateAsset list"
  link_visit_events :: "VisitEventData list"

text \<open>
  What \<^verbatim>\<open>new UAParser(ua).getResult()\<close> returns, as far as parseUserAgent reads it. The
  library is outside the repository; the environment carries it as a function.
\<close>

record UAResult =
  ua_device_type :: "string option"
  ua_os_name :: "string option"
  ua_os_version :: "string option"
  ua_browser_name :: "string option"
  ua_browser_version :: "string option"

text \<open>
  The bindings of the worker: the D1 database, the optional R2 bucket (object key to
  object text) and the signing secret.
\<close>

record Env =
  shorturl :: Database
  R2_BUCKET :: "(string \<rightharpoonup> string) option"
  JWT_SECRET :: string
  UAParser :: "string \<Rightarrow> UAResult"

text \<open>The parts of the request that the handler reads.\<close>

record Request =
  param_code :: string
  header_host :: "string option"
  header_cf_connecting_ip :: "string option"
  header_x_forwarded_for :: "string option"
  header_user_agent :: "string option"
  header_referer :: "string option"
  query_password :: "string option"
  query_t :: "string option"
  query_s :: "string option"
  cf_country :: "string option"
  cf_region :: "string option"
  cf_city :: "string option"

text \<open>
  The responses the handler builds: \<^verbatim>\<open>c.html(body, status)\<close>,
  \<^verbatim>\<open>c.json({error, message}, status)\<close>, \<^verbatim>\<open>c.text(body, status)\<close> and
  \<^verbatim>\<open>c.redirect(location, status)\<close>. The three cache headers set on every response are
  left out.
\<close>

datatype Response =
    Html string int
  | Json string string int
  | Text string int
  | Redirect string int

fun status_of :: "Response \<Rightarrow> int" where
  "status_of (Html _ st) = st"
| "status_of (Json _ _ st) = st"
| "status_of (Text _ st) = st"
| "status_of (Redirect _ st) = st"

subsection \<open>Placeholder substitution (the loop at the end of getTemplateContent)\<close>

text \<open>
  \<^verbatim>\<open>html.replace(new RegExp(`\\{\\{${key}\\}\\}`, 'g'), value)\<close>. Every key passed in the
  source is a plain identifier, so the pattern is the literal text \<open>{{key}}\<close>. The
  replacement string is expanded as \<^verbatim>\<open>String.prototype.replace\<close> does for a pattern
  without capture groups: \<open>$$\<close> is a dollar sign, \<open>$&\<close> the match, \<open>$`\<close> the text
  before the match and \<open>$'\<close> the text after it.
\<close>

fun expand_replacement :: "string \<Rightarrow> string \<Rightarrow> string \<Rightarrow> string \<Rightarrow> string" where
  "expand_replacement matched pre post (c # d # rest) =
     (if c = CHR ''$'' \<and> d = CHR ''$'' then CHR ''$'' # expand_replacement matched pre post rest
      else if c = CHR ''$'' \<and> d = CHR ''&'' then matched @ expand_replacement matched pre post rest
      else if c = CHR ''$'' \<and> d = CHR 0x60 then pre @ expand_replacement matched pre post rest
      else if c = CHR ''$'' \<and> d = CHR 0x27 then post @ expand_replacement matched pre post rest
      else c # expand_replacement matched pre post (d # rest))"
| "expand_replacement matched pre post cs = cs"

function replace_from :: "string \<Rightarrow> string \<Rightarrow> string \<Rightarrow> string \<Rightarrow> string" where
  "replace_from pat val pre s =
     (if s = [] \<or> pat = [] then s
      else if take (length pat) s = pat
        then expand_replacement pat pre (drop (length pat) s) val
               @ replace_from pat val (pre @ pat) (drop (length pat) s)
      else hd s # replace_from pat val (pre @ [hd s]) (tl s))"
  by pat_completeness auto
termination
  by (relation "measure (\<lambda>(pat, val, pre, s). length s)") auto

definition replace_placeholder :: "string \<Rightarrow> string \<Rightarrow> string \<Rightarrow> string" where
  "replace_placeholder key val html = replace_from (''{{'' @ key @ ''}}'') val [] html"

definition apply_replacements :: "(string \<times> string) list \<Rightarrow> string \<Rightarrow> string" where
  "apply_replacements replacements html =
     foldl (\<lambda>h (key, val). replace_placeholder key val h) html replacements"

subsection \<open>getTemplateContent\<close>

text \<open>
  The result \<^verbatim>\<open>{ html } | null\<close> is a \<^typ>\<open>string option\<close>. The replacements object is
  an association list in insertion order, the order \<^verbatim>\<open>Object.entries\<close> walks it.
\<close>

definition getTemplateContent ::
  "Database \<Rightarrow> int \<Rightarrow> (string \<times> string) list \<Rightarrow> (string \<rightharpoonup> string) option \<Rightarrow> string option" where
  "getTemplateContent db templateId replacements r2Bucket =
     (case find (\<lambda>t. tpl_id t = templateId \<and> tpl_is_active t = 1) (redirect_templates db) of
        None \<Rightarrow> None
      | Some template \<Rightarrow>
          (case
             (if tpl_content_type template = 0 then
                (if \<not> truthy_str (tpl_html_content template) then None
                 else tpl_html_content template)
              else if tpl_content_type template = 1 then
                (case (tpl_main_file template, tpl_asset_prefix template) of
                   (Some main_file, Some asset_prefix) \<Rightarrow>
                     (if main_file = [] \<or> asset_prefix = [] then None
                      else
                        (case find (\<lambda>a. ast_asset_prefix a = asset_prefix \<and> ast_filename a = main_file)
                                (template_assets db) of
                           None \<Rightarrow> None
                         | Some asset \<Rightarrow>
                             (if ast_storage_type asset = 0 then
                                (case ast_content asset of
                                   None \<Rightarrow> None
                                 | Some content \<Rightarrow> Some content)
                              else if ast_storage_type asset = 1 then
                                (case (or_null (ast_r2_key asset), r2Bucket) of
                                   (Some r2_key, Some bucket) \<Rightarrow>
                                     (case bucket r2_key of
                                        None \<Rightarrow> None
                                      | Some text \<Rightarrow> Some text)
                                 | _ \<Rightarrow> None)
                              else None)))
                 | _ \<Rightarrow> None)
              else None)
           of
             None \<Rightarrow> None
           | Some html \<Rightarrow> Some (apply_replacements replacements html)))"

subsection \<open>parseUserAgent, recordVisitEvent and the click counter\<close>

definition or_unknown :: "string option \<Rightarrow> string" where
  "or_unknown x = (case or_null x of None \<Rightarrow> ''unknown'' | Some s \<Rightarrow> s)"

definition name_version :: "string option \<Rightarrow> string option \<Rightarrow> string" where
  "name_version name version =
     (case or_null name of
        None \<Rightarrow> ''unknown''
      | Some n \<Rightarrow> n @ (case or_null version of None \<Rightarrow> [] | Some v \<Rightarrow> '' '' @ v))"

definition parseUserAgent :: "(string \<Rightarrow> UAResult) \<Rightarrow> string option \<Rightarrow> string \<times> string \<times> string" where
  "parseUserAgent parser ua =
     (case or_null ua of
        None \<Rightarrow> (''unknown'', ''unknown'', ''unknown'')
      | Some u \<Rightarrow>
          (let result = parser u
           in (or_unknown (ua_device_type result),
               name_version (ua_os_name result) (ua_os_version result),
               name_version (ua_browser_name result) (ua_browser_version result))))"

text \<open>The INSERT into link_visit_events.\<close>

definition recordVisitEvent :: "Database \<Rightarrow> VisitEventData \<Rightarrow> Database" where
  "recordVisitEvent db event = db\<lparr>link_visit_events := link_visit_events db @ [event]\<rparr>"

text \<open>
  \<^verbatim>\<open>UPDATE short_links SET total_clicks = total_clicks + 1, last_access_at = ? WHERE id = ?\<close>
\<close>

definition update_clicks :: "int \<Rightarrow> int \<Rightarrow> Database \<Rightarrow> Database" where
  "update_clicks now link_id db =
     db\<lparr>short_links :=
          map (\<lambda>r. if sl_id r = link_id
                    then r\<lparr>sl_total_clicks := sl_total_clicks r + 1, sl_last_access_at := Some now\<rparr>
                    else r)
              (short_links db)\<rparr>"

subsection \<open>getErrorPageHtml\<close>

text \<open>\<^verbatim>\<open>a ?? b\<close> on optional numbers: the right side only when the left is null.\<close>

definition nullish :: "'a option \<Rightarrow> 'a option \<Rightarrow> 'a option" where
  "nullish a b = (case a of None \<Rightarrow> b | Some x \<Rightarrow> Some x)"

definition getErrorPageHtml ::
  "Database \<Rightarrow> (string \<rightharpoonup> string) option \<Rightarrow> string \<Rightarrow> ShortLink option \<Rightarrow> (string \<times> string) list
     \<Rightarrow> string option" where
  "getErrorPageHtml db r2Bucket host shortLink replacements =
     (let templateId =
            (case shortLink of
               Some sl \<Rightarrow> nullish (sl_error_template_id sl) (domain_error_template_id sl)
             | None \<Rightarrow>
                 (case find (\<lambda>d. dom_host d = host \<and> dom_is_active d = 1) (domains db) of
                    None \<Rightarrow> None
                  | Some domain \<Rightarrow> dom_error_template_id domain))
      in case templateId of
           None \<Rightarrow> None
         | Some tid \<Rightarrow>
             (if tid = 0 then None
              else getTemplateContent db tid replacements r2Bucket))"

subsection \<open>The handler of GET /:code\<close>

text \<open>The members of enum ErrorCode (util.ts) that the handler prints.\<close>

definition SHORTURL_NOT_FOUND :: int where
  "SHORTURL_NOT_FOUND = - 3"

definition LINK_EXPIRED :: int where
  "LINK_EXPIRED = - 4"

definition LINK_LIMIT_REACHED :: int where
  "LINK_LIMIT_REACHED = - 5"

text \<open>
  The link lookup: short_links joined to domains on \<^verbatim>\<open>sl.domain_id = d.id\<close>, filtered by
  code, host, not deleted, not disabled, domain active; \<^verbatim>\<open>.first()\<close> takes the first row.
  Text columns are compared exactly, as SQLite does by default.
\<close>

definition find_short_link :: "Database \<Rightarrow> string \<Rightarrow> string \<Rightarrow> ShortLink option" where
  "find_short_link db code host =
     (case [(sl, d). sl \<leftarrow> short_links db, d \<leftarrow> domains db,
                     sl_domain_id sl = dom_id d \<and> sl_code sl = code \<and> dom_host d = host
                     \<and> sl_deleted_at sl = None \<and> sl_is_disabled sl = 0 \<and> dom_is_active d = 1] of
        [] \<Rightarrow> None
      | (sl, d) # _ \<Rightarrow>
          Some (ShortLinkRow.extend sl
                  (ShortLink.fields (dom_host d) (dom_password_template_id d) (dom_error_template_id d))))"

text \<open>\<^verbatim>\<open>c.req.header("host") || ""\<close>\<close>

definition host_of :: "Request \<Rightarrow> string" where
  "host_of req = (case or_null (header_host req) of Some h \<Rightarrow> h | None \<Rightarrow> [])"

text \<open>\<^verbatim>\<open>result.expire_at && result.expire_at < now\<close>\<close>

definition is_expired :: "ShortLink \<Rightarrow> int \<Rightarrow> bool" where
  "is_expired result now =
     (case sl_expire_at result of None \<Rightarrow> False | Some e \<Rightarrow> e \<noteq> 0 \<and> e < now)"

text \<open>\<^verbatim>\<open>result.max_visits && result.total_clicks >= result.max_visits\<close>\<close>

definition limit_reached :: "ShortLink \<Rightarrow> bool" where
  "limit_reached result =
     (case sl_max_visits result of None \<Rightarrow> False | Some m \<Rightarrow> m \<noteq> 0 \<and> sl_total_clicks result \<ge> m)"

text \<open>\<^verbatim>\<open>html ? c.html(html, status) : c.json({ error, message }, status)\<close>\<close>

definition html_or_json :: "string option \<Rightarrow> int \<Rightarrow> string \<Rightarrow> string \<Rightarrow> Response" where
  "html_or_json html status err message =
     (case or_null html of
        Some h \<Rightarrow> Html h status
      | None \<Rightarrow> Json err message status)"

text \<open>The constant baseEvent (lines 323 to 340).\<close>

definition base_event :: "Env \<Rightarrow> int \<Rightarrow> Request \<Rightarrow> ShortLink \<Rightarrow> VisitEventData" where
  "base_event env now req result =
     (let ip = (case or_null (header_cf_connecting_ip req) of
                  Some a \<Rightarrow> Some a
                | None \<Rightarrow> or_null (header_x_forwarded_for req));
          ua = or_null (header_user_agent req);
          referer = or_null (header_referer req);
          country = (case or_null (cf_country req) of Some x \<Rightarrow> x | None \<Rightarrow> []);
          region = (case or_null (cf_region req) of Some x \<Rightarrow> x | None \<Rightarrow> []);
          city = (case or_null (cf_city req) of Some x \<Rightarrow> x | None \<Rightarrow> [])
      in case parseUserAgent (UAParser env) ua of
           (device_type, os, browser) \<Rightarrow>
             \<lparr> ev_short_link_id = sl_id result,
               ev_domain_id = sl_domain_id result,
               ev_code = sl_code result,
               ev_visited_at = now,
               ev_ip = ip,
               ev_ua = ua,
               ev_referer = referer,
               ev_country = Some country,
               ev_region = Some region,
               ev_city = Some city,
               ev_device_type = Some device_type,
               ev_os = Some os,
               ev_browser = Some browser,
               ev_is_blocked = 0,
               ev_block_reason = None,
               ev_http_status = sl_redirect_http_code result \<rparr>)"

text \<open>\<^verbatim>\<open>{ ...baseEvent, is_blocked: 1, block_reason: reason, http_status: status }\<close>\<close>

definition blocked_event :: "VisitEventData \<Rightarrow> string \<Rightarrow> int \<Rightarrow> VisitEventData" where
  "blocked_event baseEvent reason status =
     baseEvent\<lparr>ev_is_blocked := 1, ev_block_reason := Some reason, ev_http_status := status\<rparr>"

text \<open>
  The success block, written three times in the source (lines 431 to 444, 463 to 476 and
  507 to 522): record baseEvent, bump the click counter, redirect.
\<close>

definition record_and_redirect :: "Env \<Rightarrow> int \<Rightarrow> ShortLink \<Rightarrow> VisitEventData \<Rightarrow> Response \<times> Database" where
  "record_and_redirect env now result baseEvent =
     (Redirect (sl_target_url result) (sl_redirect_http_code result),
      update_clicks now (sl_id result) (recordVisitEvent (shorturl env) baseEvent))"

text \<open>
  The password block (lines 367 to 415). \<open>None\<close> means that no branch returned and the
  handler goes on to the interstitial block.
\<close>

definition password_block ::
  "Env \<Rightarrow> ShortLink \<Rightarrow> VisitEventData \<Rightarrow> string option \<Rightarrow> (Response \<times> Database) option" where
  "password_block env result baseEvent password =
     (if truthy_str (sl_password result) then
        (let passwordTemplateId =
               nullish (sl_password_template_id result) (domain_password_template_id result)
         in if truthy_str password \<and> sl_password result \<noteq> password then
              (let db' = recordVisitEvent (shorturl env) (blocked_event baseEvent ''password_wrong'' 401)
               in case (case passwordTemplateId of
                          None \<Rightarrow> None
                        | Some tid \<Rightarrow>
                            (if tid = 0 then None
                             else getTemplateContent (shorturl env) tid
                                    [(''errorpassword'', ''true'')] (R2_BUCKET env))) of
                    Some html \<Rightarrow> Some (Html html 200, db')
                  | None \<Rightarrow> Some (Text ''server error'' 500, db'))
            else if \<not> truthy_str password then
              (case (case passwordTemplateId of
                       None \<Rightarrow> None
                     | Some tid \<Rightarrow>
                         (if tid = 0 then None
                          else getTemplateContent (shorturl env) tid
                                 [(''errorpassword'', ''false'')] (R2_BUCKET env))) of
                 Some html \<Rightarrow>
                   Some (Html html 200,
                         recordVisitEvent (shorturl env) (blocked_event baseEvent ''password'' 401))
               | None \<Rightarrow>
                   Some (Text ''Password required'' 401,
                         recordVisitEvent (shorturl env) (blocked_event baseEvent ''password'' 401)))
            else None)
      else None)"

text \<open>
  The interstitial block (lines 417 to 504). \<open>None\<close> means that the block fell through to
  the final success block. \<open>accepted\<close> holds on the two paths that return the redirect
  from inside \<^verbatim>\<open>if (timestampStr)\<close>: verification not forced, or a signature that
  verifies for the parsed timestamp with the elapsed time inside the window. On every
  other path the source goes on to render the interstitial page.
\<close>

definition interstitial_block ::
  "Env \<Rightarrow> int \<Rightarrow> string \<Rightarrow> string \<Rightarrow> ShortLink \<Rightarrow> VisitEventData \<Rightarrow> string option \<Rightarrow> string option
     \<Rightarrow> (Response \<times> Database) option" where
  "interstitial_block env now host code result baseEvent timestampStr sign =
     (let needsInterstitial = (sl_use_interstitial result \<noteq> 0 \<and> truthy_num (sl_template_id result));
          forceVerification = (sl_force_interstitial result = 1)
      in case (if needsInterstitial then sl_template_id result else None) of
           None \<Rightarrow> None
         | Some templateId \<Rightarrow>
             (let hmacSecret = JWT_SECRET env;
                  maxValiditySeconds = 30 * 60;
                  accepted =
                    (case timestampStr of
                       None \<Rightarrow> False
                     | Some ts \<Rightarrow>
                         ts \<noteq> [] \<and>
                         (if \<not> forceVerification then True
                          else (case sign of
                                  None \<Rightarrow> False
                                | Some sg \<Rightarrow>
                                    sg \<noteq> [] \<and>
                                    (let timestamp = parseInt ts;
                                         isValidSignature =
                                           verifyHmacSignature hmacSecret timestamp host code sg;
                                         elapsedSeconds = js_sub (Num now) timestamp
                                     in isValidSignature
                                        \<and> js_ge elapsedSeconds (Num (sl_interstitial_delay result - 1))
                                        \<and> js_le elapsedSeconds (Num maxValiditySeconds)))))
              in if accepted then Some (record_and_redirect env now result baseEvent)
                 else
                   (let newTimestamp = now;
                        newSign = generateHmacSignature hmacSecret (Num newTimestamp) host code
                    in case getTemplateContent (shorturl env) templateId
                              [(''delay'', string_of_int (sl_interstitial_delay result)),
                               (''timestamp'', string_of_int newTimestamp),
                               (''sign'', newSign)]
                              (R2_BUCKET env) of
                         Some html \<Rightarrow>
                           Some (Html html 200,
                                 recordVisitEvent (shorturl env) (blocked_event baseEvent ''interstitial'' 200))
                       | None \<Rightarrow> None)))"

definition handle_get_code :: "Env \<Rightarrow> int \<Rightarrow> Request \<Rightarrow> Response \<times> Database" where
  "handle_get_code env now req =
     (let code = param_code req;
          host = host_of req;
          password = or_null (query_password req);
          timestampStr = or_null (query_t req);
          sign = or_null (query_s req);
          db = shorturl env
      in case find_short_link db code host of
           None \<Rightarrow>
             (html_or_json
                (getErrorPageHtml db (R2_BUCKET env) host None
                   [(''error_message'', ''Short link not found''),
                    (''error_code'', string_of_int SHORTURL_NOT_FOUND),
                    (''http_status'', ''404''),
                    (''code'', code)])
                404 ''not_found'' ''Short link not found'',
              db)
         | Some result \<Rightarrow>
             (let baseEvent = base_event env now req result
              in if is_expired result now then
                   (html_or_json
                      (getErrorPageHtml db (R2_BUCKET env) host (Some result)
                         [(''error_message'', ''Link expired''),
                          (''error_code'', string_of_int LINK_EXPIRED),
                          (''http_status'', ''410'')])
                      410 ''expired'' ''Link expired'',
                    recordVisitEvent db (blocked_event baseEvent ''expired'' 410))
                 else if limit_reached result then
                   (html_or_json
                      (getErrorPageHtml db (R2_BUCKET env) host (Some result)
                         [(''error_message'', ''Link visit limit reached''),
                          (''error_code'', string_of_int LINK_LIMIT_REACHED),
                          (''http_status'', ''410'')])
                      410 ''limit'' ''Link visit limit reached'',
                    recordVisitEvent db (blocked_event baseEvent ''limit'' 410))
                 else
                   (case password_block env result baseEvent password of
                      Some r \<Rightarrow> r
                    | None \<Rightarrow>
                        (case interstitial_block env now host code result baseEvent timestampStr sign of
                           Some r \<Rightarrow> r
                         | None \<Rightarrow> record_and_redirect env now result baseEvent))))"

subsection \<open>A concrete deployment\<close>

text \<open>
  Scenario A of the specification: the link \<open>abc123\<close> on the domain \<open>x.com\<close>, target
  \<open>https://dest.example\<close>, redirect code 302, no password, no interstitial. The domain
  row is the one that \<^verbatim>\<open>/api/auth/init\<close> inserts: error template 1, password template 2,
  interstitial template 3. Template 4 is inactive and template 5 is active without content.
\<close>

definition example_link :: ShortLinkRow where
  "example_link =
     \<lparr> sl_id = 1, sl_domain_id = 1, sl_code = ''abc123'', sl_target_url = ''https://dest.example'',
       sl_redirect_http_code = 302, sl_use_interstitial = 0, sl_interstitial_delay = 5,
       sl_force_interstitial = 0, sl_template_id = None, sl_password = None, sl_max_visits = None,
       sl_expire_at = None, sl_is_disabled = 0, sl_deleted_at = None, sl_total_clicks = 0,
       sl_last_access_at = None, sl_password_template_id = None, sl_error_template_id = None \<rparr>"

definition example_domain :: Domain where
  "example_domain =
     \<lparr> dom_id = 1, dom_host = ''x.com'', dom_is_active = 1, dom_error_template_id = Some 1,
       dom_password_template_id = Some 2, dom_interstitial_template_id = Some 3 \<rparr>"

definition inline_template :: "int \<Rightarrow> int \<Rightarrow> string option \<Rightarrow> RedirectTemplate" where
  "inline_template i active content =
     \<lparr> tpl_id = i, tpl_is_active = active, tpl_content_type = 0, tpl_html_content = content,
       tpl_main_file = None, tpl_asset_prefix = None \<rparr>"

definition example_templates :: "RedirectTemplate list" where
  "example_templates =
     [inline_template 1 1 (Some ''error {{http_status}}''),
      inline_template 2 1 (Some ''retry={{errorpassword}}''),
      inline_template 3 1 (Some ''wait {{delay}}''),
      inline_template 4 0 (Some ''retired''),
      inline_template 5 1 None]"

definition example_db :: "ShortLinkRow \<Rightarrow> Database" where
  "example_db l =
     \<lparr> short_links = [l], domains = [example_domain], redirect_templates = example_templates,
       template_assets = [], link_visit_events = [] \<rparr>"

definition no_ua :: UAResult where
  "no_ua = \<lparr> ua_device_type = None, ua_os_name = None, ua_os_version = None,
             ua_browser_name = None, ua_browser_version = None \<rparr>"

definition example_env :: "ShortLinkRow \<Rightarrow> Env" where
  "example_env l =
     \<lparr> shorturl = example_db l, R2_BUCKET = None, JWT_SECRET = ''k'', UAParser = (\<lambda>_. no_ua) \<rparr>"

definition example_request :: "string \<Rightarrow> string option \<Rightarrow> string option \<Rightarrow> string option \<Rightarrow> Request" where
  "example_request code password t s =
     \<lparr> param_code = code, header_host = Some ''x.com'', header_cf_connecting_ip = None,
       header_x_forwarded_for = None, header_user_agent = None, header_referer = None,
       query_password = password, query_t = t, query_s = s,
       cf_country = None, cf_region = None, cf_city = None \<rparr>"


section \<open>Properties\<close>

subsection \<open>Decimal rendering\<close>

declare string_of_nat.simps [simp del]
declare replace_from.simps [simp del]













subsection \<open>Encodings and HMAC\<close>






text \<open>The first test vector of FIPS 180-4 for SHA-256, checked by rewriting.\<close>

lemma sha256_test_vector:
  "hex_of_bytes (sha256 (encode ''abc''))
     = ''ba7816bf8f01cfea414140de5dae2223b00361a396177a9cb410ff61f20015ad''"
  by code_simp







subsection \<open>The ticket protocol\<close>








subsection \<open>The handler, branch by branch\<close>

lemma apply_replacements_Nil: "apply_replacements [] html = html"
  by (simp add: apply_replacements_def)

lemma getTemplateContent_load:
  "getTemplateContent db tid repl r2 =
     map_option (apply_replacements repl) (getTemplateContent db tid [] r2)"
  by (simp add: getTemplateContent_def apply_replacements_Nil split: option.split)

lemma getTemplateContent_None_iff:
  "getTemplateContent db tid repl r2 = None \<longleftrightarrow> getTemplateContent db tid [] r2 = None"
  by (subst getTemplateContent_load) simp

lemma getTemplateContent_inactive:
  assumes "\<forall>t \<in> set (redirect_templates db). tpl_id t = tid \<longrightarrow> tpl_is_active t \<noteq> 1"
  shows "getTemplateContent db tid repl r2 = None"
proof -
  have "find (\<lambda>t. tpl_id t = tid \<and> tpl_is_active t = 1) (redirect_templates db) = None"
    using assms by (auto simp: find_None_iff)
  then show ?thesis
    by (simp add: getTemplateContent_def)
qed

lemma handle_not_found:
  assumes "find_short_link (shorturl env) (param_code req) (host_of req) = None"
  shows "snd (handle_get_code env now req) = shorturl env"
  using assms by (simp add: handle_get_code_def Let_def)

lemma handle_found:
  assumes "find_short_link (shorturl env) (param_code req) (host_of req) = Some result"
  shows "handle_get_code env now req =
     (if is_expired result now then
        (html_or_json
           (getErrorPageHtml (shorturl env) (R2_BUCKET env) (host_of req) (Some result)
              [(''error_message'', ''Link expired''),
               (''error_code'', string_of_int LINK_EXPIRED),
               (''http_status'', ''410'')])
           410 ''expired'' ''Link expired'',
         recordVisitEvent (shorturl env) (blocked_event (base_event env now req result) ''expired'' 410))
      else if limit_reached result then
        (html_or_json
           (getErrorPageHtml (shorturl env) (R2_BUCKET env) (host_of req) (Some result)
              [(''error_message'', ''Link visit limit reached''),
               (''error_code'', string_of_int LINK_LIMIT_REACHED),
               (''http_status'', ''410'')])
           410 ''limit'' ''Link visit limit reached'',
         recordVisitEvent (shorturl env) (blocked_event (base_event env now req result) ''limit'' 410))
      else
        (case password_block env result (base_event env now req result) (or_null (query_password req)) of
           Some r \<Rightarrow> r
         | None \<Rightarrow>
             (case interstitial_block env now (host_of req) (param_code req) result
                     (base_event env now req result) (or_null (query_t req)) (or_null (query_s req)) of
                Some r \<Rightarrow> r
              | None \<Rightarrow> record_and_redirect env now result (base_event env now req result))))"
  using assms by (simp add: handle_get_code_def Let_def)

lemma status_of_html_or_json: "status_of (html_or_json html st err msg) = st"
  by (simp add: html_or_json_def split: option.split)

lemma password_block_None_iff:
  "password_block env result be password = None \<longleftrightarrow>
     (\<not> truthy_str (sl_password result) \<or> (truthy_str password \<and> sl_password result = password))"
  by (auto simp: password_block_def Let_def split: option.splits)

lemma example_found:
  assumes "sl_code l = ''abc123''" "sl_domain_id l = 1" "sl_deleted_at l = None" "sl_is_disabled l = 0"
  shows "find_short_link (shorturl (example_env l)) (param_code (example_request ''abc123'' pw t s))
           (host_of (example_request ''abc123'' pw t s))
         = Some (ShortLinkRow.extend l (ShortLink.fields ''x.com'' (Some 2) (Some 1)))"
  using assms
  by (simp add: find_short_link_def example_env_def example_db_def example_domain_def
        example_request_def host_of_def or_null_def)

subsection \<open>Expiry and the visit limit\<close>

lemma events_recordVisitEvent:
  "link_visit_events (recordVisitEvent db e) = link_visit_events db @ [e]"
  by (simp add: recordVisitEvent_def)

lemma example_events: "link_visit_events (shorturl (example_env l)) = []"
  by (simp add: example_env_def example_db_def)

text \<open>
  C1 (as stated, refuted). A link whose \<open>expire_at\<close> is the epoch time 0 has an expiry
  time earlier than the current time 1000, yet the request is redirected with status 302:
  the check \<^verbatim>\<open>result.expire_at && result.expire_at < now\<close> treats 0 as unset.
\<close>

theorem C1_expire_at_zero_counterexample:
  "find_short_link (shorturl (example_env (example_link\<lparr>sl_expire_at := Some 0\<rparr>)))
      (param_code (example_request ''abc123'' None None None))
      (host_of (example_request ''abc123'' None None None))
     = Some (ShortLinkRow.extend (example_link\<lparr>sl_expire_at := Some 0\<rparr>)
               (ShortLink.fields ''x.com'' (Some 2) (Some 1)))
   \<and> (0 :: int) < 1000
   \<and> fst (handle_get_code (example_env (example_link\<lparr>sl_expire_at := Some 0\<rparr>)) 1000
             (example_request ''abc123'' None None None))
       = Redirect ''https://dest.example'' 302"
proof -
  have found:
    "find_short_link (shorturl (example_env (example_link\<lparr>sl_expire_at := Some 0\<rparr>)))
        (param_code (example_request ''abc123'' None None None))
        (host_of (example_request ''abc123'' None None None))
     = Some (ShortLinkRow.extend (example_link\<lparr>sl_expire_at := Some 0\<rparr>)
               (ShortLink.fields ''x.com'' (Some 2) (Some 1)))"
    by (rule example_found) (simp_all add: example_link_def)
  have "fst (handle_get_code (example_env (example_link\<lparr>sl_expire_at := Some 0\<rparr>)) 1000
               (example_request ''abc123'' None None None))
        = Redirect ''https://dest.example'' 302"
    by (subst handle_found [OF found])
       (simp add: is_expired_def limit_reached_def password_block_def interstitial_block_def
          record_and_redirect_def example_link_def ShortLinkRow.extend_def ShortLink.fields_def)
  with found show ?thesis
    by simp
qed

text \<open>
  C1 (amended). For every request whose resolved link has \<open>expire_at\<close> set to a non-zero
  epoch time earlier than the current time, the response has status 410 and the one visit
  event recorded has reason \<open>expired\<close> and status 410, whatever the link's password and
  interstitial configuration and whatever the query parameters.
\<close>

theorem C1_expired_link_blocked:
  assumes "find_short_link (shorturl env) (param_code req) (host_of req) = Some result"
    and "sl_expire_at result = Some e"
    and "e \<noteq> 0"
    and "e < now"
  shows "status_of (fst (handle_get_code env now req)) = 410
         \<and> link_visit_events (snd (handle_get_code env now req))
             = link_visit_events (shorturl env)
                 @ [blocked_event (base_event env now req result) ''expired'' 410]"
proof -
  have "is_expired result now"
    using assms(2-4) by (simp add: is_expired_def)
  then show ?thesis
    by (simp add: handle_found [OF assms(1)] status_of_html_or_json events_recordVisitEvent)
qed

theorem C1_expired_link_blocked_witness:
  "status_of (fst (handle_get_code
       (example_env (example_link\<lparr>sl_expire_at := Some 5, sl_password := Some ''secret1''\<rparr>)) 1000
       (example_request ''abc123'' None None None))) = 410
   \<and> map ev_block_reason (link_visit_events (snd (handle_get_code
       (example_env (example_link\<lparr>sl_expire_at := Some 5, sl_password := Some ''secret1''\<rparr>)) 1000
       (example_request ''abc123'' None None None)))) = [Some ''expired'']"
proof -
  define l where "l = example_link\<lparr>sl_expire_at := Some 5, sl_password := Some ''secret1''\<rparr>"
  define r where "r = ShortLinkRow.extend l (ShortLink.fields ''x.com'' (Some 2) (Some 1))"
  have found:
    "find_short_link (shorturl (example_env l)) (param_code (example_request ''abc123'' None None None))
        (host_of (example_request ''abc123'' None None None)) = Some r"
    unfolding r_def by (rule example_found) (simp_all add: l_def example_link_def)
  have e: "sl_expire_at r = Some 5"
    by (simp add: r_def l_def ShortLinkRow.extend_def)
  have "(5 :: int) \<noteq> 0" "(5 :: int) < 1000"
    by simp_all
  from C1_expired_link_blocked [OF found e this]
  show ?thesis
    unfolding l_def [symmetric]
    by (simp add: example_events blocked_event_def)
qed

lemma base_event_fields:
  "ev_is_blocked (base_event env now req result) = 0"
  "ev_block_reason (base_event env now req result) = None"
  "ev_http_status (base_event env now req result) = sl_redirect_http_code result"
  "ev_short_link_id (base_event env now req result) = sl_id result"
  "ev_visited_at (base_event env now req result) = now"
  by (simp_all add: base_event_def Let_def split: prod.split)

lemma blocked_event_fields:
  "ev_is_blocked (blocked_event b reason status) = 1"
  "ev_block_reason (blocked_event b reason status) = Some reason"
  "ev_http_status (blocked_event b reason status) = status"
  by (simp_all add: blocked_event_def)

lemma password_block_Some:
  assumes "password_block env result b password = Some (r, db')"
  shows "(db' = recordVisitEvent (shorturl env) (blocked_event b ''password_wrong'' 401)
          \<or> db' = recordVisitEvent (shorturl env) (blocked_event b ''password'' 401))
         \<and> ((\<exists>html. r = Html html 200) \<or> r = Text ''server error'' 500
              \<or> r = Text ''Password required'' 401)"
  using assms
  by (auto simp: password_block_def Let_def split: if_splits option.splits)

lemma html_or_json_cases:
  "(\<exists>h. html_or_json html st err msg = Html h st) \<or> html_or_json html st err msg = Json err msg st"
  by (simp add: html_or_json_def split: option.split)

lemma interstitial_block_Some:
  assumes "interstitial_block env now host code result b ts sg = Some (r, db')"
  shows "(r, db') = record_and_redirect env now result b
         \<or> (\<exists>html. r = Html html 200
               \<and> db' = recordVisitEvent (shorturl env) (blocked_event b ''interstitial'' 200))"
  using assms
  by (auto simp: interstitial_block_def Let_def split: if_splits option.splits)

lemma events_record_and_redirect:
  "link_visit_events (snd (record_and_redirect env now result b)) = link_visit_events (shorturl env) @ [b]"
  by (simp add: record_and_redirect_def update_clicks_def recordVisitEvent_def)

text \<open>Every way in which the handler can answer a request whose link was found.\<close>

lemma handle_found_outcome:
  fixes env :: Env and now :: int and req :: Request and result :: ShortLink
  assumes found: "find_short_link (shorturl env) (param_code req) (host_of req) = Some result"
  defines "out \<equiv> handle_get_code env now req"
    and "b \<equiv> base_event env now req result"
  shows "\<exists>e. link_visit_events (snd out) = link_visit_events (shorturl env) @ [e]
    \<and> ((is_expired result now \<and> e = blocked_event b ''expired'' 410
          \<and> ((\<exists>html. fst out = Html html 410) \<or> fst out = Json ''expired'' ''Link expired'' 410))
       \<or> (\<not> is_expired result now \<and> limit_reached result \<and> e = blocked_event b ''limit'' 410
          \<and> ((\<exists>html. fst out = Html html 410)
               \<or> fst out = Json ''limit'' ''Link visit limit reached'' 410))
       \<or> (\<not> is_expired result now \<and> \<not> limit_reached result
          \<and> password_block env result b (or_null (query_password req)) \<noteq> None
          \<and> (e = blocked_event b ''password_wrong'' 401 \<or> e = blocked_event b ''password'' 401)
          \<and> ((\<exists>html. fst out = Html html 200) \<or> fst out = Text ''server error'' 500
               \<or> fst out = Text ''Password required'' 401))
       \<or> (\<not> is_expired result now \<and> \<not> limit_reached result
          \<and> password_block env result b (or_null (query_password req)) = None
          \<and> e = blocked_event b ''interstitial'' 200 \<and> (\<exists>html. fst out = Html html 200))
       \<or> (\<not> is_expired result now \<and> \<not> limit_reached result
          \<and> password_block env result b (or_null (query_password req)) = None
          \<and> e = b \<and> fst out = Redirect (sl_target_url result) (sl_redirect_http_code result)))"
proof (cases "is_expired result now")
  case True
  with html_or_json_cases show ?thesis
    unfolding out_def b_def
    by (simp add: handle_found [OF found] events_recordVisitEvent)
next
  case not_expired: False
  show ?thesis
  proof (cases "limit_reached result")
    case True
    with not_expired html_or_json_cases show ?thesis
      unfolding out_def b_def
      by (simp add: handle_found [OF found] events_recordVisitEvent)
  next
    case not_limited: False
    show ?thesis
    proof (cases "password_block env result b (or_null (query_password req))")
      case (Some p)
      obtain r db' where p: "p = (r, db')"
        by (cases p)
      from password_block_Some [OF Some [unfolded p]] Some not_expired not_limited show ?thesis
        unfolding out_def b_def p
        by (auto simp: handle_found [OF found] events_recordVisitEvent)
    next
      case pw: None
      show ?thesis
      proof (cases "interstitial_block env now (host_of req) (param_code req) result b
                      (or_null (query_t req)) (or_null (query_s req))")
        case None
        with pw not_expired not_limited show ?thesis
          unfolding out_def b_def
          by (simp add: handle_found [OF found] events_record_and_redirect)
             (simp add: record_and_redirect_def)
      next
        case (Some p)
        obtain r db' where p: "p = (r, db')"
          by (cases p)
        from interstitial_block_Some [OF Some [unfolded p]] show ?thesis
        proof
          assume "(r, db') = record_and_redirect env now result b"
          with Some p pw not_expired not_limited show ?thesis
            unfolding out_def b_def
            by (simp add: handle_found [OF found] events_record_and_redirect)
               (simp add: record_and_redirect_def)
        next
          assume "\<exists>html. r = Html html 200
                   \<and> db' = recordVisitEvent (shorturl env) (blocked_event b ''interstitial'' 200)"
          with Some p pw not_expired not_limited show ?thesis
            unfolding out_def b_def
            by (auto simp: handle_found [OF found] events_recordVisitEvent)
        qed
      qed
    qed
  qed
qed

text \<open>
  C9. A link whose \<open>max_visits\<close> is 0 is never blocked by the visit-limit check: whatever
  the request, the visit event recorded does not carry the reason \<open>limit\<close> and the
  response is not the limit response. Likewise a link whose \<open>expire_at\<close> is 0 is never
  blocked as expired.
\<close>

theorem C9_zero_is_unset:
  assumes "find_short_link (shorturl env) (param_code req) (host_of req) = Some result"
  shows "(sl_max_visits result = Some 0 \<longrightarrow>
            \<not> limit_reached result
            \<and> ev_block_reason (last (link_visit_events (snd (handle_get_code env now req)))) \<noteq> Some ''limit''
            \<and> fst (handle_get_code env now req) \<noteq> Json ''limit'' ''Link visit limit reached'' 410)
       \<and> (sl_expire_at result = Some 0 \<longrightarrow>
            \<not> is_expired result now
            \<and> ev_block_reason (last (link_visit_events (snd (handle_get_code env now req)))) \<noteq> Some ''expired''
            \<and> fst (handle_get_code env now req) \<noteq> Json ''expired'' ''Link expired'' 410)"
proof (intro conjI impI)
  assume zero: "sl_max_visits result = Some 0"
  then show not_limited: "\<not> limit_reached result"
    by (simp add: limit_reached_def)
  from handle_found_outcome [OF assms, of now] not_limited
  show "ev_block_reason (last (link_visit_events (snd (handle_get_code env now req)))) \<noteq> Some ''limit''"
    by (auto simp: blocked_event_fields base_event_fields)
  from handle_found_outcome [OF assms, of now] not_limited
  show "fst (handle_get_code env now req) \<noteq> Json ''limit'' ''Link visit limit reached'' 410"
    by auto
next
  assume zero: "sl_expire_at result = Some 0"
  then show not_expired: "\<not> is_expired result now"
    by (simp add: is_expired_def)
  from handle_found_outcome [OF assms, of now] not_expired
  show "ev_block_reason (last (link_visit_events (snd (handle_get_code env now req)))) \<noteq> Some ''expired''"
    by (auto simp: blocked_event_fields base_event_fields)
  from handle_found_outcome [OF assms, of now] not_expired
  show "fst (handle_get_code env now req) \<noteq> Json ''expired'' ''Link expired'' 410"
    by auto
qed

theorem C9_zero_is_unset_witness:
  "ev_block_reason (last (link_visit_events (snd (handle_get_code
       (example_env (example_link\<lparr>sl_max_visits := Some 0, sl_expire_at := Some 0\<rparr>)) 1000
       (example_request ''abc123'' None None None))))) \<noteq> Some ''limit''
   \<and> ev_block_reason (last (link_visit_events (snd (handle_get_code
       (example_env (example_link\<lparr>sl_max_visits := Some 0, sl_expire_at := Some 0\<rparr>)) 1000
       (example_request ''abc123'' None None None))))) \<noteq> Some ''expired''"
proof -
  define l where "l = example_link\<lparr>sl_max_visits := Some 0, sl_expire_at := Some 0\<rparr>"
  define r where "r = ShortLinkRow.extend l (ShortLink.fields ''x.com'' (Some 2) (Some 1))"
  have found:
    "find_short_link (shorturl (example_env l)) (param_code (example_request ''abc123'' None None None))
        (host_of (example_request ''abc123'' None None None)) = Some r"
    unfolding r_def by (rule example_found) (simp_all add: l_def example_link_def)
  have m: "sl_max_visits r = Some 0" and e: "sl_expire_at r = Some 0"
    by (simp_all add: r_def l_def ShortLinkRow.extend_def)
  from C9_zero_is_unset [OF found, of 1000] m e
  show ?thesis
    unfolding l_def [symmetric] by blast
qed

subsection \<open>Visit events\<close>

lemma example_not_found:
  "find_short_link (shorturl (example_env example_link)) (param_code (example_request ''nope'' pw t s))
     (host_of (example_request ''nope'' pw t s)) = None"
  by (simp add: find_short_link_def example_env_def example_db_def example_domain_def
        example_request_def example_link_def)

text \<open>
  C6 (as stated, refuted). A request for a code that no link has reaches the NotFound
  disposition (status 404), and no visit event is appended: the not-found branch returns
  before any call of recordVisitEvent, whose event needs the id of a link.
\<close>

theorem C6_not_found_counterexample:
  "find_short_link (shorturl (example_env example_link))
      (param_code (example_request ''nope'' None None None))
      (host_of (example_request ''nope'' None None None)) = None
   \<and> status_of (fst (handle_get_code (example_env example_link) 1000
                      (example_request ''nope'' None None None))) = 404
   \<and> link_visit_events (snd (handle_get_code (example_env example_link) 1000
                               (example_request ''nope'' None None None))) = []"
proof -
  have "status_of (fst (handle_get_code (example_env example_link) 1000
                          (example_request ''nope'' None None None))) = 404"
    by (simp add: handle_get_code_def Let_def example_not_found status_of_html_or_json)
  moreover have "link_visit_events (snd (handle_get_code (example_env example_link) 1000
                                           (example_request ''nope'' None None None))) = []"
    by (simp add: handle_not_found [OF example_not_found] example_events)
  ultimately show ?thesis
    using example_not_found by simp
qed

lemma password_content_cases:
  "(case nullish a b of
      None \<Rightarrow> None
    | Some tid \<Rightarrow> (if tid = 0 then None else getTemplateContent db tid repl r2))
   = map_option (apply_replacements repl)
       (case nullish a b of
          None \<Rightarrow> None
        | Some tid \<Rightarrow> (if tid = 0 then None else getTemplateContent db tid [] r2))"
  by (cases "nullish a b") (simp_all add: getTemplateContent_load [of db _ repl])

lemma password_block_challenge:
  assumes "truthy_str (sl_password result)"
  shows "password_block env result b None
           = Some (case (case nullish (sl_password_template_id result) (domain_password_template_id result) of
                           None \<Rightarrow> None
                         | Some tid \<Rightarrow>
                             (if tid = 0 then None
                              else getTemplateContent (shorturl env) tid [] (R2_BUCKET env))) of
                     Some html \<Rightarrow> Html (apply_replacements [(''errorpassword'', ''false'')] html) 200
                   | None \<Rightarrow> Text ''Password required'' 401,
                   recordVisitEvent (shorturl env) (blocked_event b ''password'' 401))"
  using assms
  by (simp add: password_block_def Let_def
        password_content_cases [where repl = "[(''errorpassword'', ''false'')]"]
        split: option.split)

lemma password_block_wrong:
  assumes "truthy_str (sl_password result)"
    and "q \<noteq> []"
    and "sl_password result \<noteq> Some q"
  shows "password_block env result b (Some q)
           = Some (case (case nullish (sl_password_template_id result) (domain_password_template_id result) of
                           None \<Rightarrow> None
                         | Some tid \<Rightarrow>
                             (if tid = 0 then None
                              else getTemplateContent (shorturl env) tid [] (R2_BUCKET env))) of
                     Some html \<Rightarrow> Html (apply_replacements [(''errorpassword'', ''true'')] html) 200
                   | None \<Rightarrow> Text ''server error'' 500,
                   recordVisitEvent (shorturl env) (blocked_event b ''password_wrong'' 401))"
  using assms
  by (simp add: password_block_def Let_def
        password_content_cases [where repl = "[(''errorpassword'', ''true'')]"]
        split: option.split)

lemma handle_found_disposition:
  assumes found: "find_short_link (shorturl env) (param_code req) (host_of req) = Some result"
  shows "\<exists>e. link_visit_events (snd (handle_get_code env now req))
                = link_visit_events (shorturl env) @ [e]
    \<and> (if is_expired result now then
         e = blocked_event (base_event env now req result) ''expired'' 410
         \<and> ((\<exists>html. fst (handle_get_code env now req) = Html html 410)
             \<or> fst (handle_get_code env now req) = Json ''expired'' ''Link expired'' 410)
       else if limit_reached result then
         e = blocked_event (base_event env now req result) ''limit'' 410
         \<and> ((\<exists>html. fst (handle_get_code env now req) = Html html 410)
             \<or> fst (handle_get_code env now req) = Json ''limit'' ''Link visit limit reached'' 410)
       else if truthy_str (sl_password result) \<and> or_null (query_password req) = None then
         e = blocked_event (base_event env now req result) ''password'' 401
         \<and> ((\<exists>html. fst (handle_get_code env now req) = Html html 200)
             \<or> fst (handle_get_code env now req) = Text ''Password required'' 401)
       else if truthy_str (sl_password result) \<and> or_null (query_password req) \<noteq> sl_password result then
         e = blocked_event (base_event env now req result) ''password_wrong'' 401
         \<and> ((\<exists>html. fst (handle_get_code env now req) = Html html 200)
             \<or> fst (handle_get_code env now req) = Text ''server error'' 500)
       else
         (e = base_event env now req result
          \<and> fst (handle_get_code env now req)
               = Redirect (sl_target_url result) (sl_redirect_http_code result))
         \<or> (e = blocked_event (base_event env now req result) ''interstitial'' 200
             \<and> (\<exists>html. fst (handle_get_code env now req) = Html html 200)))"
proof -
  define b where "b = base_event env now req result"
  define p where "p = or_null (query_password req)"
  consider (expired) "is_expired result now"
    | (limit) "\<not> is_expired result now" "limit_reached result"
    | (challenge) "\<not> is_expired result now" "\<not> limit_reached result"
        "truthy_str (sl_password result)" "p = None"
    | (wrong) "\<not> is_expired result now" "\<not> limit_reached result"
        "truthy_str (sl_password result)" "p \<noteq> None" "p \<noteq> sl_password result"
    | (pass) "\<not> is_expired result now" "\<not> limit_reached result"
        "\<not> (truthy_str (sl_password result) \<and> p = None)"
        "\<not> (truthy_str (sl_password result) \<and> p \<noteq> sl_password result)"
    by blast
  then show ?thesis
  proof cases
    case expired
    with html_or_json_cases show ?thesis
      by (simp add: handle_found [OF found] events_recordVisitEvent)
  next
    case limit
    with html_or_json_cases show ?thesis
      by (simp add: handle_found [OF found] events_recordVisitEvent)
  next
    case challenge
    then show ?thesis
      unfolding p_def
      by (simp add: handle_found [OF found] password_block_challenge events_recordVisitEvent
            split: option.split)
  next
    case wrong
    then obtain q where q: "p = Some q" "q \<noteq> []" "sl_password result \<noteq> Some q"
      by (cases p) (auto simp: p_def or_null_def split: if_splits)
    with wrong show ?thesis
      unfolding p_def
      by (simp add: handle_found [OF found] password_block_wrong events_recordVisitEvent
            split: option.split)
  next
    case pass
    then have pw: "password_block env result b p = None"
      by (auto simp: password_block_None_iff)
    have out: "handle_get_code env now req =
       (case interstitial_block env now (host_of req) (param_code req) result b
               (or_null (query_t req)) (or_null (query_s req)) of
          Some r \<Rightarrow> r
        | None \<Rightarrow> record_and_redirect env now result b)"
      using pass(1,2) pw unfolding b_def p_def by (simp add: handle_found [OF found])
    have main: "\<exists>e. link_visit_events (snd (handle_get_code env now req))
                  = link_visit_events (shorturl env) @ [e]
            \<and> ((e = b \<and> fst (handle_get_code env now req)
                           = Redirect (sl_target_url result) (sl_redirect_http_code result))
                \<or> (e = blocked_event b ''interstitial'' 200
                    \<and> (\<exists>html. fst (handle_get_code env now req) = Html html 200)))"
    proof (cases "interstitial_block env now (host_of req) (param_code req) result b
                    (or_null (query_t req)) (or_null (query_s req))")
      case None
      then show ?thesis
        by (simp add: out events_record_and_redirect) (simp add: record_and_redirect_def)
    next
      case (Some x)
      obtain r db' where x: "x = (r, db')"
        by (cases x)
      from interstitial_block_Some [OF Some [unfolded x]] show ?thesis
      proof
        assume "(r, db') = record_and_redirect env now result b"
        then have "x = record_and_redirect env now result b"
          by (simp add: x)
        with Some show ?thesis
          by (simp add: out events_record_and_redirect) (simp add: record_and_redirect_def)
      next
        assume "\<exists>html. r = Html html 200
                 \<and> db' = recordVisitEvent (shorturl env) (blocked_event b ''interstitial'' 200)"
        with Some x show ?thesis
          by (auto simp: out events_recordVisitEvent)
      qed
    qed
    note c = pass [unfolded p_def]
    from main [unfolded b_def] show ?thesis
      by (simp only: if_not_P [OF c(1)] if_not_P [OF c(2)] if_not_P [OF c(3)] if_not_P [OF c(4)])
  qed
qed

text \<open>
  C6 (amended). Every request whose link is found appends exactly one visit event, and the
  event is that of the disposition reached. It is built from baseEvent, which carries the
  request context, the link and the time.
  \<^item> Expired: blocked, reason \<open>expired\<close>, status 410; the response has status 410.
  \<^item> Visit limit reached: blocked, reason \<open>limit\<close>, status 410; the response has status 410.
  \<^item> Password-protected and no password supplied: blocked, reason \<open>password\<close>, status
    401; the response is the challenge page sent with status 200, or the plain text
    \<open>Password required\<close> with status 401.
  \<^item> Password-protected and a wrong password supplied: blocked, reason \<open>password_wrong\<close>,
    status 401; the response is the challenge page sent with status 200, or the plain text
    \<open>server error\<close> with status 500.
  \<^item> Otherwise either the response is the redirect and the event is baseEvent unchanged
    (not blocked, no reason, the link's redirect code as status), or the response is the
    interstitial page with status 200 and the event is blocked with reason
    \<open>interstitial\<close> and status 200.

  A request whose link is not found appends no event and leaves the database as it was.
\<close>

theorem C6_one_visit_event_when_found:
  "(find_short_link (shorturl env) (param_code req) (host_of req) = None \<longrightarrow>
      snd (handle_get_code env now req) = shorturl env)
   \<and> (\<forall>result. find_short_link (shorturl env) (param_code req) (host_of req) = Some result \<longrightarrow>
        (\<exists>e. link_visit_events (snd (handle_get_code env now req))
                = link_visit_events (shorturl env) @ [e]
           \<and> (if is_expired result now then
                e = blocked_event (base_event env now req result) ''expired'' 410
                \<and> ((\<exists>html. fst (handle_get_code env now req) = Html html 410)
                    \<or> fst (handle_get_code env now req) = Json ''expired'' ''Link expired'' 410)
              else if limit_reached result then
                e = blocked_event (base_event env now req result) ''limit'' 410
                \<and> ((\<exists>html. fst (handle_get_code env now req) = Html html 410)
                    \<or> fst (handle_get_code env now req) = Json ''limit'' ''Link visit limit reached'' 410)
              else if truthy_str (sl_password result) \<and> or_null (query_password req) = None then
                e = blocked_event (base_event env now req result) ''password'' 401
                \<and> ((\<exists>html. fst (handle_get_code env now req) = Html html 200)
                    \<or> fst (handle_get_code env now req) = Text ''Password required'' 401)
              else if truthy_str (sl_password result)
                      \<and> or_null (query_password req) \<noteq> sl_password result then
                e = blocked_event (base_event env now req result) ''password_wrong'' 401
                \<and> ((\<exists>html. fst (handle_get_code env now req) = Html html 200)
                    \<or> fst (handle_get_code env now req) = Text ''server error'' 500)
              else
                (e = base_event env now req result
                 \<and> fst (handle_get_code env now req)
                      = Redirect (sl_target_url result) (sl_redirect_http_code result))
                \<or> (e = blocked_event (base_event env now req result) ''interstitial'' 200
                    \<and> (\<exists>html. fst (handle_get_code env now req) = Html html 200)))))"
proof (intro conjI allI impI)
  assume "find_short_link (shorturl env) (param_code req) (host_of req) = None"
  then show "snd (handle_get_code env now req) = shorturl env"
    by (rule handle_not_found)
next
  fix result
  assume "find_short_link (shorturl env) (param_code req) (host_of req) = Some result"
  then show "\<exists>e. link_visit_events (snd (handle_get_code env now req))
                = link_visit_events (shorturl env) @ [e]
           \<and> (if is_expired result now then
                e = blocked_event (base_event env now req result) ''expired'' 410
                \<and> ((\<exists>html. fst (handle_get_code env now req) = Html html 410)
                    \<or> fst (handle_get_code env now req) = Json ''expired'' ''Link expired'' 410)
              else if limit_reached result then
                e = blocked_event (base_event env now req result) ''limit'' 410
                \<and> ((\<exists>html. fst (handle_get_code env now req) = Html html 410)
                    \<or> fst (handle_get_code env now req) = Json ''limit'' ''Link visit limit reached'' 410)
              else if truthy_str (sl_password result) \<and> or_null (query_password req) = None then
                e = blocked_event (base_event env now req result) ''password'' 401
                \<and> ((\<exists>html. fst (handle_get_code env now req) = Html html 200)
                    \<or> fst (handle_get_code env now req) = Text ''Password required'' 401)
              else if truthy_str (sl_password result)
                      \<and> or_null (query_password req) \<noteq> sl_password result then
                e = blocked_event (base_event env now req result) ''password_wrong'' 401
                \<and> ((\<exists>html. fst (handle_get_code env now req) = Html html 200)
                    \<or> fst (handle_get_code env now req) = Text ''server error'' 500)
              else
                (e = base_event env now req result
                 \<and> fst (handle_get_code env now req)
                      = Redirect (sl_target_url result) (sl_redirect_http_code result))
                \<or> (e = blocked_event (base_event env now req result) ''interstitial'' 200
                    \<and> (\<exists>html. fst (handle_get_code env now req) = Html html 200)))"
    by (rule handle_found_disposition)
qed

theorem C6_one_visit_event_when_found_witness:
  "snd (handle_get_code (example_env example_link) 1000 (example_request ''nope'' None None None))
     = shorturl (example_env example_link)
   \<and> map ev_is_blocked (link_visit_events (snd (handle_get_code
        (example_env (example_link\<lparr>sl_password := Some ''secret1'', sl_expire_at := Some 500\<rparr>)) 1000
        (example_request ''abc123'' None None None)))) = [1]
   \<and> map ev_block_reason (link_visit_events (snd (handle_get_code
        (example_env (example_link\<lparr>sl_password := Some ''secret1'', sl_expire_at := Some 500\<rparr>)) 1000
        (example_request ''abc123'' None None None)))) = [Some ''expired'']
   \<and> map ev_http_status (link_visit_events (snd (handle_get_code
        (example_env (example_link\<lparr>sl_password := Some ''secret1'', sl_expire_at := Some 500\<rparr>)) 1000
        (example_request ''abc123'' None None None)))) = [410]
   \<and> status_of (fst (handle_get_code
        (example_env (example_link\<lparr>sl_password := Some ''secret1'', sl_expire_at := Some 500\<rparr>)) 1000
        (example_request ''abc123'' None None None))) = 410
   \<and> map ev_is_blocked (link_visit_events (snd (handle_get_code (example_env example_link) 1000
        (example_request ''abc123'' None None None)))) = [0]
   \<and> map ev_block_reason (link_visit_events (snd (handle_get_code (example_env example_link) 1000
        (example_request ''abc123'' None None None)))) = [None]
   \<and> map ev_http_status (link_visit_events (snd (handle_get_code (example_env example_link) 1000
        (example_request ''abc123'' None None None)))) = [302]
   \<and> fst (handle_get_code (example_env example_link) 1000 (example_request ''abc123'' None None None))
       = Redirect ''https://dest.example'' 302"
proof -
  define l where "l = example_link\<lparr>sl_password := Some ''secret1'', sl_expire_at := Some 500\<rparr>"
  define r where "r = ShortLinkRow.extend l (ShortLink.fields ''x.com'' (Some 2) (Some 1))"
  define r0 where "r0 = ShortLinkRow.extend example_link (ShortLink.fields ''x.com'' (Some 2) (Some 1))"
  define req where "req = example_request ''abc123'' None None None"
  have found: "find_short_link (shorturl (example_env l)) (param_code req) (host_of req) = Some r"
    unfolding r_def req_def by (rule example_found) (simp_all add: l_def example_link_def)
  have found0:
    "find_short_link (shorturl (example_env example_link)) (param_code req) (host_of req) = Some r0"
    unfolding r0_def req_def by (rule example_found) (simp_all add: example_link_def)
  have expired: "is_expired r 1000"
    by (simp add: r_def l_def example_link_def ShortLinkRow.extend_def is_expired_def)
  have plain: "\<not> is_expired r0 1000" "\<not> limit_reached r0" "\<not> truthy_str (sl_password r0)"
      "sl_use_interstitial r0 = 0" "sl_target_url r0 = ''https://dest.example''"
      "sl_redirect_http_code r0 = 302"
    by (simp_all add: r0_def example_link_def ShortLinkRow.extend_def is_expired_def limit_reached_def)
  have no_page: "fst (handle_get_code (example_env example_link) 1000 req) \<noteq> Html html 200" for html
    by (subst handle_found [OF found0])
       (simp add: plain password_block_def interstitial_block_def record_and_redirect_def)
  note a = C6_one_visit_event_when_found [of "example_env example_link" "example_request ''nope'' None None None" 1000,
                   THEN conjunct1, rule_format, OF example_not_found]
  from C6_one_visit_event_when_found [of "example_env l" req 1000, THEN conjunct2, rule_format, OF found] expired
  obtain e where e: "link_visit_events (snd (handle_get_code (example_env l) 1000 req))
                       = link_visit_events (shorturl (example_env l)) @ [e]"
      "e = blocked_event (base_event (example_env l) 1000 req r) ''expired'' 410"
      "(\<exists>html. fst (handle_get_code (example_env l) 1000 req) = Html html 410)
       \<or> fst (handle_get_code (example_env l) 1000 req) = Json ''expired'' ''Link expired'' 410"
    by auto
  from C6_one_visit_event_when_found [of "example_env example_link" req 1000, THEN conjunct2, rule_format, OF found0]
    plain(1-3) no_page
  obtain e0 where e0: "link_visit_events (snd (handle_get_code (example_env example_link) 1000 req))
                       = link_visit_events (shorturl (example_env example_link)) @ [e0]"
      "e0 = base_event (example_env example_link) 1000 req r0"
      "fst (handle_get_code (example_env example_link) 1000 req)
         = Redirect (sl_target_url r0) (sl_redirect_http_code r0)"
    by auto
  have "map ev_is_blocked (link_visit_events (snd (handle_get_code (example_env l) 1000 req))) = [1]"
    and "map ev_block_reason (link_visit_events (snd (handle_get_code (example_env l) 1000 req)))
           = [Some ''expired'']"
    and "map ev_http_status (link_visit_events (snd (handle_get_code (example_env l) 1000 req))) = [410]"
    by (simp_all add: e(1,2) example_events blocked_event_fields)
  moreover from e(3) have "status_of (fst (handle_get_code (example_env l) 1000 req)) = 410"
    by auto
  moreover
  have "map ev_is_blocked (link_visit_events (snd (handle_get_code (example_env example_link) 1000 req)))
          = [0]"
    and "map ev_block_reason (link_visit_events (snd (handle_get_code (example_env example_link) 1000 req)))
          = [None]"
    and "map ev_http_status (link_visit_events (snd (handle_get_code (example_env example_link) 1000 req)))
          = [302]"
    by (simp_all add: e0(1,2) example_events base_event_fields plain)
  moreover have "fst (handle_get_code (example_env example_link) 1000 req)
                   = Redirect ''https://dest.example'' 302"
    by (simp add: e0(3) plain)
  ultimately show ?thesis
    using a unfolding l_def req_def by (intro conjI)
qed


subsection \<open>The interstitial block\<close>

lemma interstitial_block_unloadable:
  assumes "sl_template_id result = Some tid"
    and "getTemplateContent (shorturl env) tid [] (R2_BUCKET env) = None"
  shows "(case interstitial_block env now host code result b ts sg of
            Some r \<Rightarrow> r
          | None \<Rightarrow> record_and_redirect env now result b)
         = record_and_redirect env now result b"
proof -
  have "getTemplateContent (shorturl env) tid repl (R2_BUCKET env) = None" for repl
    using assms(2) by (subst getTemplateContent_None_iff)
  with assms(1) show ?thesis
    by (simp add: interstitial_block_def Let_def)
qed

lemma short_links_record_and_redirect:
  "short_links (snd (record_and_redirect env now result b))
     = map (\<lambda>r. if sl_id r = sl_id result
                  then r\<lparr>sl_total_clicks := sl_total_clicks r + 1, sl_last_access_at := Some now\<rparr>
                  else r)
           (short_links (shorturl env))"
  by (simp add: record_and_redirect_def update_clicks_def recordVisitEvent_def)

text \<open>
  C8. For a request that passes the expiry, visit-limit and password checks, to a link
  with \<open>use_interstitial\<close> set and a link-level \<open>template_id\<close> whose content cannot be
  loaded, the handler does not block, whatever ticket parameters the request carries: it
  answers with the configured redirect, records the unblocked baseEvent and increments
  \<open>total_clicks\<close> of the link (setting \<open>last_access_at\<close>).
\<close>

theorem C8_unloadable_interstitial_redirects:
  assumes "find_short_link (shorturl env) (param_code req) (host_of req) = Some result"
    and "\<not> is_expired result now"
    and "\<not> limit_reached result"
    and "\<not> truthy_str (sl_password result) \<or> or_null (query_password req) = sl_password result"
    and "sl_use_interstitial result \<noteq> 0"
    and "sl_template_id result = Some tid"
    and "getTemplateContent (shorturl env) tid [] (R2_BUCKET env) = None"
  shows "fst (handle_get_code env now req) = Redirect (sl_target_url result) (sl_redirect_http_code result)
       \<and> link_visit_events (snd (handle_get_code env now req))
           = link_visit_events (shorturl env) @ [base_event env now req result]
       \<and> ev_is_blocked (base_event env now req result) = 0
       \<and> short_links (snd (handle_get_code env now req))
           = map (\<lambda>r. if sl_id r = sl_id result
                        then r\<lparr>sl_total_clicks := sl_total_clicks r + 1, sl_last_access_at := Some now\<rparr>
                        else r)
                 (short_links (shorturl env))"
proof -
  have "password_block env result (base_event env now req result) (or_null (query_password req)) = None"
    using assms(4) by (auto simp: password_block_None_iff)
  with assms(2,3) interstitial_block_unloadable [OF assms(6,7)]
  have "handle_get_code env now req = record_and_redirect env now result (base_event env now req result)"
    by (simp add: handle_found [OF assms(1)])
  then show ?thesis
    by (simp add: events_record_and_redirect short_links_record_and_redirect base_event_fields)
       (simp add: record_and_redirect_def)
qed

theorem C8_unloadable_interstitial_redirects_witness:
  "fst (handle_get_code
         (example_env (example_link\<lparr>sl_use_interstitial := 1, sl_template_id := Some 4\<rparr>)) 1000
         (example_request ''abc123'' None None None))
     = Redirect ''https://dest.example'' 302
   \<and> map sl_total_clicks (short_links (snd (handle_get_code
         (example_env (example_link\<lparr>sl_use_interstitial := 1, sl_template_id := Some 4\<rparr>)) 1000
         (example_request ''abc123'' None None None)))) = [1]"
proof -
  define l where "l = example_link\<lparr>sl_use_interstitial := 1, sl_template_id := Some 4\<rparr>"
  define r where "r = ShortLinkRow.extend l (ShortLink.fields ''x.com'' (Some 2) (Some 1))"
  have found:
    "find_short_link (shorturl (example_env l)) (param_code (example_request ''abc123'' None None None))
        (host_of (example_request ''abc123'' None None None)) = Some r"
    unfolding r_def by (rule example_found) (simp_all add: l_def example_link_def)
  have h: "\<not> is_expired r 1000" "\<not> limit_reached r"
      "\<not> truthy_str (sl_password r)
         \<or> or_null (query_password (example_request ''abc123'' None None None)) = sl_password r"
      "sl_use_interstitial r \<noteq> 0" "sl_template_id r = Some 4"
    by (simp_all add: r_def l_def example_link_def ShortLinkRow.extend_def is_expired_def
          limit_reached_def)
  have unloadable: "getTemplateContent (shorturl (example_env l)) 4 [] (R2_BUCKET (example_env l)) = None"
    by (simp add: getTemplateContent_def example_env_def example_db_def example_templates_def
          inline_template_def)
  from C8_unloadable_interstitial_redirects [OF found h unloadable]
  have "fst (handle_get_code (example_env l) 1000 (example_request ''abc123'' None None None))
          = Redirect (sl_target_url r) (sl_redirect_http_code r)"
    and "short_links (snd (handle_get_code (example_env l) 1000 (example_request ''abc123'' None None None)))
          = map (\<lambda>x. if sl_id x = sl_id r
                       then x\<lparr>sl_total_clicks := sl_total_clicks x + 1, sl_last_access_at := Some 1000\<rparr>
                       else x)
                (short_links (shorturl (example_env l)))"
    by simp_all
  then show ?thesis
    unfolding l_def [symmetric]
    by (simp add: r_def l_def example_link_def ShortLinkRow.extend_def example_env_def example_db_def)
qed

subsection \<open>The password block\<close>

lemma or_null_simps:
  "or_null None = None"
  "or_null (Some []) = None"
  "s \<noteq> [] \<Longrightarrow> or_null (Some s) = Some s"
  by (simp_all add: or_null_def)

lemma host_of_query_password: "host_of (req\<lparr>query_password := p\<rparr>) = host_of req"
  by (simp add: host_of_def)

lemma base_event_query_password:
  "base_event env now (req\<lparr>query_password := p\<rparr>) result = base_event env now req result"
  by (simp add: base_event_def cong: option.case_cong)

lemma example_template_lookup:
  "getTemplateContent (shorturl (example_env l)) 1 repl (R2_BUCKET (example_env l))
     = Some (apply_replacements repl ''error {{http_status}}'')"
  "getTemplateContent (shorturl (example_env l)) 2 repl (R2_BUCKET (example_env l))
     = Some (apply_replacements repl ''retry={{errorpassword}}'')"
  "getTemplateContent (shorturl (example_env l)) 3 repl (R2_BUCKET (example_env l))
     = Some (apply_replacements repl ''wait {{delay}}'')"
  "getTemplateContent (shorturl (example_env l)) 4 repl (R2_BUCKET (example_env l)) = None"
  "getTemplateContent (shorturl (example_env l)) 5 repl (R2_BUCKET (example_env l)) = None"
  by (simp_all add: getTemplateContent_def example_env_def example_db_def example_templates_def
        inline_template_def)

text \<open>
  C10. A request whose \<open>password\<close> query parameter is present but empty is answered exactly
  as the same request without the parameter. For a password-protected link that passes
  the expiry and visit-limit checks the answer is the challenge, for every stored
  password: the visit event has reason \<open>password\<close> (not \<open>password_wrong\<close>), and the
  response is the effective password template rendered with \<open>errorpassword=false\<close>,
  sent with status 200, whenever the content of that template loads; only when there is no
  such content is it the plain text \<open>Password required\<close> with status 401.
\<close>

theorem C10_empty_password_is_no_password:
  "handle_get_code env now (req\<lparr>query_password := Some []\<rparr>)
     = handle_get_code env now (req\<lparr>query_password := None\<rparr>)
   \<and> (\<forall>result.
         find_short_link (shorturl env) (param_code req) (host_of req) = Some result
         \<and> \<not> is_expired result now \<and> \<not> limit_reached result \<and> truthy_str (sl_password result) \<longrightarrow>
           handle_get_code env now (req\<lparr>query_password := Some []\<rparr>)
             = (case (case nullish (sl_password_template_id result) (domain_password_template_id result) of
                        None \<Rightarrow> None
                      | Some tid \<Rightarrow>
                          (if tid = 0 then None
                           else getTemplateContent (shorturl env) tid [] (R2_BUCKET env))) of
                  Some html \<Rightarrow> Html (apply_replacements [(''errorpassword'', ''false'')] html) 200
                | None \<Rightarrow> Text ''Password required'' 401,
                recordVisitEvent (shorturl env)
                  (blocked_event (base_event env now req result) ''password'' 401)))"
proof (intro conjI allI impI)
  show "handle_get_code env now (req\<lparr>query_password := Some []\<rparr>)
          = handle_get_code env now (req\<lparr>query_password := None\<rparr>)"
    by (simp add: handle_get_code_def Let_def or_null_simps host_of_query_password
          base_event_query_password cong: option.case_cong)
next
  fix result
  assume a: "find_short_link (shorturl env) (param_code req) (host_of req) = Some result
             \<and> \<not> is_expired result now \<and> \<not> limit_reached result \<and> truthy_str (sl_password result)"
  define req' where "req' = req\<lparr>query_password := Some []\<rparr>"
  have found: "find_short_link (shorturl env) (param_code req') (host_of req') = Some result"
    using a by (simp add: req'_def host_of_query_password)
  have b: "base_event env now req' result = base_event env now req result"
    by (simp add: req'_def base_event_query_password)
  have q: "or_null (query_password req') = None"
    by (simp add: req'_def or_null_simps)
  have pw: "truthy_str (sl_password result)"
    using a by simp
  have "handle_get_code env now req'
          = (case (case nullish (sl_password_template_id result) (domain_password_template_id result) of
                     None \<Rightarrow> None
                   | Some tid \<Rightarrow>
                       (if tid = 0 then None
                        else getTemplateContent (shorturl env) tid [] (R2_BUCKET env))) of
               Some html \<Rightarrow> Html (apply_replacements [(''errorpassword'', ''false'')] html) 200
             | None \<Rightarrow> Text ''Password required'' 401,
             recordVisitEvent (shorturl env)
               (blocked_event (base_event env now req result) ''password'' 401))"
    using a by (simp add: handle_found [OF found] b q password_block_challenge [OF pw])
  then show "handle_get_code env now (req\<lparr>query_password := Some []\<rparr>)
          = (case (case nullish (sl_password_template_id result) (domain_password_template_id result) of
                     None \<Rightarrow> None
                   | Some tid \<Rightarrow>
                       (if tid = 0 then None
                        else getTemplateContent (shorturl env) tid [] (R2_BUCKET env))) of
               Some html \<Rightarrow> Html (apply_replacements [(''errorpassword'', ''false'')] html) 200
             | None \<Rightarrow> Text ''Password required'' 401,
             recordVisitEvent (shorturl env)
               (blocked_event (base_event env now req result) ''password'' 401))"
    by (simp only: req'_def)
qed

theorem C10_empty_password_is_no_password_witness:
  "fst (handle_get_code (example_env (example_link\<lparr>sl_password := Some ''secret1''\<rparr>)) 1000
          (example_request ''abc123'' (Some []) None None))
     = Html ''retry=false'' 200
   \<and> map ev_block_reason (link_visit_events (snd (handle_get_code
        (example_env (example_link\<lparr>sl_password := Some ''secret1''\<rparr>)) 1000
        (example_request ''abc123'' (Some []) None None)))) = [Some ''password'']
   \<and> map ev_http_status (link_visit_events (snd (handle_get_code
        (example_env (example_link\<lparr>sl_password := Some ''secret1''\<rparr>)) 1000
        (example_request ''abc123'' (Some []) None None)))) = [401]
   \<and> fst (handle_get_code
        (example_env (example_link\<lparr>sl_password := Some ''secret1'', sl_password_template_id := Some 4\<rparr>))
        1000 (example_request ''abc123'' (Some []) None None))
     = Text ''Password required'' 401"
proof -
  define l where "l = example_link\<lparr>sl_password := Some ''secret1''\<rparr>"
  define l' where "l' = example_link\<lparr>sl_password := Some ''secret1'', sl_password_template_id := Some 4\<rparr>"
  define r where "r = ShortLinkRow.extend l (ShortLink.fields ''x.com'' (Some 2) (Some 1))"
  define r' where "r' = ShortLinkRow.extend l' (ShortLink.fields ''x.com'' (Some 2) (Some 1))"
  define req where "req = example_request ''abc123'' None None None"
  have req': "req\<lparr>query_password := Some []\<rparr> = example_request ''abc123'' (Some []) None None"
    by (simp add: req_def example_request_def)
  have found: "find_short_link (shorturl (example_env l)) (param_code req) (host_of req) = Some r"
    unfolding r_def req_def by (rule example_found) (simp_all add: l_def example_link_def)
  have found': "find_short_link (shorturl (example_env l')) (param_code req) (host_of req) = Some r'"
    unfolding r'_def req_def by (rule example_found) (simp_all add: l'_def example_link_def)
  have h: "\<not> is_expired r 1000" "\<not> limit_reached r" "truthy_str (sl_password r)"
    by (simp_all add: r_def l_def example_link_def ShortLinkRow.extend_def is_expired_def
          limit_reached_def)
  have h': "\<not> is_expired r' 1000" "\<not> limit_reached r'" "truthy_str (sl_password r')"
    by (simp_all add: r'_def l'_def example_link_def ShortLinkRow.extend_def is_expired_def
          limit_reached_def)
  have t: "nullish (sl_password_template_id r) (domain_password_template_id r) = Some 2"
    by (simp add: r_def l_def example_link_def nullish_def ShortLinkRow.extend_def ShortLink.fields_def)
  have t': "nullish (sl_password_template_id r') (domain_password_template_id r') = Some 4"
    by (simp add: r'_def l'_def example_link_def nullish_def ShortLinkRow.extend_def ShortLink.fields_def)
  have page: "apply_replacements [(''errorpassword'', ''false'')] ''retry={{errorpassword}}'' = ''retry=false''"
    by (simp add: apply_replacements_def replace_placeholder_def replace_from.simps)
  from C10_empty_password_is_no_password [of "example_env l" 1000 req, THEN conjunct2, rule_format, of r] found h
  have out: "handle_get_code (example_env l) 1000 (req\<lparr>query_password := Some []\<rparr>)
          = (Html ''retry=false'' 200,
             recordVisitEvent (shorturl (example_env l))
               (blocked_event (base_event (example_env l) 1000 req r) ''password'' 401))"
    by (simp add: t example_template_lookup apply_replacements_Nil page)
  from C10_empty_password_is_no_password [of "example_env l'" 1000 req, THEN conjunct2, rule_format, of r'] found' h'
  have out': "handle_get_code (example_env l') 1000 (req\<lparr>query_password := Some []\<rparr>)
          = (Text ''Password required'' 401,
             recordVisitEvent (shorturl (example_env l'))
               (blocked_event (base_event (example_env l') 1000 req r') ''password'' 401))"
    by (simp add: t' example_template_lookup)
  have "fst (handle_get_code (example_env l) 1000 (req\<lparr>query_password := Some []\<rparr>))
          = Html ''retry=false'' 200"
    and "map ev_block_reason (link_visit_events (snd (handle_get_code (example_env l) 1000
            (req\<lparr>query_password := Some []\<rparr>)))) = [Some ''password'']"
    and "map ev_http_status (link_visit_events (snd (handle_get_code (example_env l) 1000
            (req\<lparr>query_password := Some []\<rparr>)))) = [401]"
    by (simp_all add: out events_recordVisitEvent example_events blocked_event_fields)
  moreover have "fst (handle_get_code (example_env l') 1000 (req\<lparr>query_password := Some []\<rparr>))
          = Text ''Password required'' 401"
    by (simp add: out')
  ultimately show ?thesis
    unfolding req' l_def l'_def by (intro conjI)
qed

text \<open>
  C4 (as stated, refuted). The link has the password \<open>secret1\<close>. A request that supplies
  the empty password, which does not match, is answered with the challenge: the template
  is rendered with \<open>errorpassword=false\<close> and the visit has reason \<open>password\<close>. A request
  that supplies \<open>wrong\<close> is recorded with status 401 and reason \<open>password_wrong\<close>, but the
  page rendered with \<open>errorpassword=true\<close> is sent with status 200; and when the
  link-level password template cannot be used the answer is the plain text
  \<open>server error\<close> with status 500.
\<close>

theorem C4_wrong_password_counterexample:
  "fst (handle_get_code (example_env (example_link\<lparr>sl_password := Some ''secret1''\<rparr>)) 1000
          (example_request ''abc123'' (Some []) None None))
     = Html ''retry=false'' 200
   \<and> map ev_block_reason (link_visit_events (snd (handle_get_code
          (example_env (example_link\<lparr>sl_password := Some ''secret1''\<rparr>)) 1000
          (example_request ''abc123'' (Some []) None None)))) = [Some ''password'']
   \<and> fst (handle_get_code (example_env (example_link\<lparr>sl_password := Some ''secret1''\<rparr>)) 1000
          (example_request ''abc123'' (Some ''wrong'') None None))
     = Html ''retry=true'' 200
   \<and> map ev_http_status (link_visit_events (snd (handle_get_code
          (example_env (example_link\<lparr>sl_password := Some ''secret1''\<rparr>)) 1000
          (example_request ''abc123'' (Some ''wrong'') None None)))) = [401]
   \<and> map ev_block_reason (link_visit_events (snd (handle_get_code
          (example_env (example_link\<lparr>sl_password := Some ''secret1''\<rparr>)) 1000
          (example_request ''abc123'' (Some ''wrong'') None None)))) = [Some ''password_wrong'']
   \<and> fst (handle_get_code
          (example_env (example_link\<lparr>sl_password := Some ''secret1'', sl_password_template_id := Some 4\<rparr>))
          1000 (example_request ''abc123'' (Some ''wrong'') None None))
     = Text ''server error'' 500"
proof -
  define req where "req = example_request ''abc123'' (Some ''wrong'') None None"
  define req0 where "req0 = example_request ''abc123'' (Some []) None None"
  define l where "l = example_link\<lparr>sl_password := Some ''secret1''\<rparr>"
  define l' where "l' = example_link\<lparr>sl_password := Some ''secret1'', sl_password_template_id := Some 4\<rparr>"
  have q: "or_null (query_password req) = Some ''wrong''"
    by (simp add: req_def example_request_def or_null_def)
  have q0: "or_null (query_password req0) = None"
    by (simp add: req0_def example_request_def or_null_def)
  have found:
    "find_short_link (shorturl (example_env l)) (param_code req) (host_of req)
       = Some (ShortLinkRow.extend l (ShortLink.fields ''x.com'' (Some 2) (Some 1)))"
    unfolding req_def by (rule example_found) (simp_all add: l_def example_link_def)
  have found0:
    "find_short_link (shorturl (example_env l)) (param_code req0) (host_of req0)
       = Some (ShortLinkRow.extend l (ShortLink.fields ''x.com'' (Some 2) (Some 1)))"
    unfolding req0_def by (rule example_found) (simp_all add: l_def example_link_def)
  have found':
    "find_short_link (shorturl (example_env l')) (param_code req) (host_of req)
       = Some (ShortLinkRow.extend l' (ShortLink.fields ''x.com'' (Some 2) (Some 1)))"
    unfolding req_def by (rule example_found) (simp_all add: l'_def example_link_def)
  have out: "handle_get_code (example_env l) 1000 req
      = (Html ''retry=true'' 200,
         recordVisitEvent (shorturl (example_env l))
           (blocked_event (base_event (example_env l) 1000 req
              (ShortLinkRow.extend l (ShortLink.fields ''x.com'' (Some 2) (Some 1))))
              ''password_wrong'' 401))"
    by (subst handle_found [OF found])
       (simp add: q is_expired_def limit_reached_def password_block_def nullish_def
          example_template_lookup apply_replacements_def replace_placeholder_def replace_from.simps
          l_def example_link_def ShortLinkRow.extend_def ShortLink.fields_def)
  have out0: "handle_get_code (example_env l) 1000 req0
      = (Html ''retry=false'' 200,
         recordVisitEvent (shorturl (example_env l))
           (blocked_event (base_event (example_env l) 1000 req0
              (ShortLinkRow.extend l (ShortLink.fields ''x.com'' (Some 2) (Some 1))))
              ''password'' 401))"
    by (subst handle_found [OF found0])
       (simp add: q0 is_expired_def limit_reached_def password_block_def nullish_def
          example_template_lookup apply_replacements_def replace_placeholder_def replace_from.simps
          l_def example_link_def ShortLinkRow.extend_def ShortLink.fields_def)
  have out': "fst (handle_get_code (example_env l') 1000 req) = Text ''server error'' 500"
    by (subst handle_found [OF found'])
       (simp add: q is_expired_def limit_reached_def password_block_def nullish_def
          example_template_lookup
          l'_def example_link_def ShortLinkRow.extend_def ShortLink.fields_def)
  from out have "fst (handle_get_code (example_env l) 1000 req) = Html ''retry=true'' 200"
    and "map ev_http_status (link_visit_events (snd (handle_get_code (example_env l) 1000 req))) = [401]"
    and "map ev_block_reason (link_visit_events (snd (handle_get_code (example_env l) 1000 req)))
           = [Some ''password_wrong'']"
    by (simp_all add: events_recordVisitEvent example_events blocked_event_fields)
  moreover from out0 have "fst (handle_get_code (example_env l) 1000 req0) = Html ''retry=false'' 200"
    and "map ev_block_reason (link_visit_events (snd (handle_get_code (example_env l) 1000 req0)))
           = [Some ''password'']"
    by (simp_all add: events_recordVisitEvent example_events blocked_event_fields)
  ultimately show ?thesis
    using out' unfolding req_def req0_def l_def l'_def by (intro conjI)
qed

text \<open>
  C4 (amended). For every request that passes the expiry and visit-limit checks, to a
  password-protected link, where a non-empty password query parameter is supplied and
  does not match the link's stored password: the visit is recorded as blocked with reason
  \<open>password_wrong\<close> and status 401; the response is the effective password template
  rendered with \<open>errorpassword=true\<close>, sent with status 200, whenever the content of that
  template loads; only when there is no such content is it the plain text
  \<open>server error\<close>, sent with status 500.
\<close>

theorem C4_wrong_password_recorded:
  assumes "find_short_link (shorturl env) (param_code req) (host_of req) = Some result"
    and "\<not> is_expired result now"
    and "\<not> limit_reached result"
    and "truthy_str (sl_password result)"
    and "query_password req = Some q"
    and "q \<noteq> []"
    and "sl_password result \<noteq> Some q"
  shows "handle_get_code env now req
           = (case (case nullish (sl_password_template_id result) (domain_password_template_id result) of
                      None \<Rightarrow> None
                    | Some tid \<Rightarrow>
                        (if tid = 0 then None
                         else getTemplateContent (shorturl env) tid [] (R2_BUCKET env))) of
                Some html \<Rightarrow> Html (apply_replacements [(''errorpassword'', ''true'')] html) 200
              | None \<Rightarrow> Text ''server error'' 500,
              recordVisitEvent (shorturl env)
                (blocked_event (base_event env now req result) ''password_wrong'' 401))"
proof -
  have q: "or_null (query_password req) = Some q"
    using assms(5,6) by (simp add: or_null_def)
  show ?thesis
    using assms(2,3)
    by (simp add: handle_found [OF assms(1)] q password_block_wrong [OF assms(4,6,7)])
qed

theorem C4_wrong_password_recorded_witness:
  "handle_get_code (example_env (example_link\<lparr>sl_password := Some ''secret1''\<rparr>)) 1000
       (example_request ''abc123'' (Some ''wrong'') None None)
     = (Html ''retry=true'' 200,
        recordVisitEvent (shorturl (example_env (example_link\<lparr>sl_password := Some ''secret1''\<rparr>)))
          (blocked_event
             (base_event (example_env (example_link\<lparr>sl_password := Some ''secret1''\<rparr>)) 1000
                (example_request ''abc123'' (Some ''wrong'') None None)
                (ShortLinkRow.extend (example_link\<lparr>sl_password := Some ''secret1''\<rparr>)
                   (ShortLink.fields ''x.com'' (Some 2) (Some 1))))
             ''password_wrong'' 401))
   \<and> handle_get_code
       (example_env (example_link\<lparr>sl_password := Some ''secret1'', sl_password_template_id := Some 4\<rparr>))
       1000 (example_request ''abc123'' (Some ''wrong'') None None)
     = (Text ''server error'' 500,
        recordVisitEvent
          (shorturl (example_env
             (example_link\<lparr>sl_password := Some ''secret1'', sl_password_template_id := Some 4\<rparr>)))
          (blocked_event
             (base_event
                (example_env
                   (example_link\<lparr>sl_password := Some ''secret1'', sl_password_template_id := Some 4\<rparr>))
                1000 (example_request ''abc123'' (Some ''wrong'') None None)
                (ShortLinkRow.extend
                   (example_link\<lparr>sl_password := Some ''secret1'', sl_password_template_id := Some 4\<rparr>)
                   (ShortLink.fields ''x.com'' (Some 2) (Some 1))))
             ''password_wrong'' 401))"
proof -
  define l where "l = example_link\<lparr>sl_password := Some ''secret1''\<rparr>"
  define l' where "l' = example_link\<lparr>sl_password := Some ''secret1'', sl_password_template_id := Some 4\<rparr>"
  define r where "r = ShortLinkRow.extend l (ShortLink.fields ''x.com'' (Some 2) (Some 1))"
  define r' where "r' = ShortLinkRow.extend l' (ShortLink.fields ''x.com'' (Some 2) (Some 1))"
  define req where "req = example_request ''abc123'' (Some ''wrong'') None None"
  have found: "find_short_link (shorturl (example_env l)) (param_code req) (host_of req) = Some r"
    unfolding r_def req_def by (rule example_found) (simp_all add: l_def example_link_def)
  have found': "find_short_link (shorturl (example_env l')) (param_code req) (host_of req) = Some r'"
    unfolding r'_def req_def by (rule example_found) (simp_all add: l'_def example_link_def)
  have h: "\<not> is_expired r 1000" "\<not> limit_reached r" "truthy_str (sl_password r)"
      "query_password req = Some ''wrong''" "''wrong'' \<noteq> []" "sl_password r \<noteq> Some ''wrong''"
    by (simp_all add: r_def l_def req_def example_link_def example_request_def
          ShortLinkRow.extend_def is_expired_def limit_reached_def)
  have h': "\<not> is_expired r' 1000" "\<not> limit_reached r'" "truthy_str (sl_password r')"
      "query_password req = Some ''wrong''" "''wrong'' \<noteq> []" "sl_password r' \<noteq> Some ''wrong''"
    by (simp_all add: r'_def l'_def req_def example_link_def example_request_def
          ShortLinkRow.extend_def is_expired_def limit_reached_def)
  have t: "nullish (sl_password_template_id r) (domain_password_template_id r) = Some 2"
    by (simp add: r_def l_def example_link_def nullish_def ShortLinkRow.extend_def ShortLink.fields_def)
  have t': "nullish (sl_password_template_id r') (domain_password_template_id r') = Some 4"
    by (simp add: r'_def l'_def example_link_def nullish_def ShortLinkRow.extend_def ShortLink.fields_def)
  have page: "apply_replacements [(''errorpassword'', ''true'')] ''retry={{errorpassword}}'' = ''retry=true''"
    by (simp add: apply_replacements_def replace_placeholder_def replace_from.simps)
  have "handle_get_code (example_env l) 1000 req
          = (Html ''retry=true'' 200,
             recordVisitEvent (shorturl (example_env l))
               (blocked_event (base_event (example_env l) 1000 req r) ''password_wrong'' 401))"
    using C4_wrong_password_recorded [OF found h]
    by (simp add: t example_template_lookup apply_replacements_Nil page)
  moreover have "handle_get_code (example_env l') 1000 req
          = (Text ''server error'' 500,
             recordVisitEvent (shorturl (example_env l'))
               (blocked_event (base_event (example_env l') 1000 req r') ''password_wrong'' 401))"
    using C4_wrong_password_recorded [OF found' h']
    by (simp add: t' example_template_lookup)
  ultimately show ?thesis
    unfolding l_def l'_def r_def r'_def req_def by (rule conjI)
qed

text \<open>
  C5 (the code departs from the claim). The link has \<open>use_interstitial\<close> set and no
  link-level template id; its domain has the interstitial template 3 configured, which is
  active and has content. The first request, without a ticket, is redirected at once and
  recorded as an unblocked visit: the handler's query does not read the domain's
  \<open>interstitial_template_id\<close> and the interstitial block tests the link-level id only.
\<close>

theorem C5_domain_interstitial_template_ignored:
  "sl_use_interstitial (example_link\<lparr>sl_use_interstitial := 1\<rparr>) = 1
   \<and> sl_template_id (example_link\<lparr>sl_use_interstitial := 1\<rparr>) = None
   \<and> dom_interstitial_template_id example_domain = Some 3
   \<and> getTemplateContent (shorturl (example_env (example_link\<lparr>sl_use_interstitial := 1\<rparr>))) 3 []
         (R2_BUCKET (example_env (example_link\<lparr>sl_use_interstitial := 1\<rparr>))) = Some ''wait {{delay}}''
   \<and> fst (handle_get_code (example_env (example_link\<lparr>sl_use_interstitial := 1\<rparr>)) 1000
             (example_request ''abc123'' None None None))
       = Redirect ''https://dest.example'' 302
   \<and> map ev_is_blocked (link_visit_events (snd (handle_get_code
          (example_env (example_link\<lparr>sl_use_interstitial := 1\<rparr>)) 1000
          (example_request ''abc123'' None None None)))) = [0]"
proof -
  define req where "req = example_request ''abc123'' None None None"
  define l where "l = example_link\<lparr>sl_use_interstitial := 1\<rparr>"
  define r where "r = ShortLinkRow.extend l (ShortLink.fields ''x.com'' (Some 2) (Some 1))"
  have found: "find_short_link (shorturl (example_env l)) (param_code req) (host_of req) = Some r"
    unfolding req_def r_def by (rule example_found) (simp_all add: l_def example_link_def)
  have "handle_get_code (example_env l) 1000 req
          = record_and_redirect (example_env l) 1000 r (base_event (example_env l) 1000 req r)"
    by (subst handle_found [OF found])
       (simp add: is_expired_def limit_reached_def password_block_def interstitial_block_def
          r_def l_def example_link_def ShortLinkRow.extend_def ShortLink.fields_def)
  then have "fst (handle_get_code (example_env l) 1000 req) = Redirect ''https://dest.example'' 302"
    and "map ev_is_blocked (link_visit_events (snd (handle_get_code (example_env l) 1000 req))) = [0]"
    by (simp_all add: events_record_and_redirect example_events base_event_fields)
       (simp add: record_and_redirect_def r_def l_def example_link_def ShortLinkRow.extend_def)
  moreover have "sl_use_interstitial l = 1" "sl_template_id l = None"
    by (simp_all add: l_def example_link_def)
  moreover have "dom_interstitial_template_id example_domain = Some 3"
    by (simp add: example_domain_def)
  moreover have "getTemplateContent (shorturl (example_env l)) 3 [] (R2_BUCKET (example_env l))
                   = Some ''wait {{delay}}''"
    by (simp add: example_template_lookup apply_replacements_Nil)
  ultimately show ?thesis
    unfolding req_def l_def by (intro conjI)
qed

subsection \<open>Template resolution\<close>

text \<open>
  C7 (as stated, refuted). The link names the inactive template 4 as its error template
  and its domain names the active template 1. Resolution reports absent: the link-level
  id wins because it is not null, its template is not eligible, and the domain-level
  template is never tried. An expired request to that link gets the built-in JSON body.
\<close>

theorem C7_inactive_link_template_counterexample:
  "sl_error_template_id
      (ShortLinkRow.extend (example_link\<lparr>sl_error_template_id := Some 4, sl_expire_at := Some 5\<rparr>)
         (ShortLink.fields ''x.com'' (Some 2) (Some 1))) = Some 4
   \<and> domain_error_template_id
      (ShortLinkRow.extend (example_link\<lparr>sl_error_template_id := Some 4, sl_expire_at := Some 5\<rparr>)
         (ShortLink.fields ''x.com'' (Some 2) (Some 1))) = Some 1
   \<and> getTemplateContent (example_db (example_link\<lparr>sl_error_template_id := Some 4, sl_expire_at := Some 5\<rparr>))
        1 [] None = Some ''error {{http_status}}''
   \<and> getErrorPageHtml (example_db (example_link\<lparr>sl_error_template_id := Some 4, sl_expire_at := Some 5\<rparr>))
        None ''x.com''
        (Some (ShortLinkRow.extend (example_link\<lparr>sl_error_template_id := Some 4, sl_expire_at := Some 5\<rparr>)
                 (ShortLink.fields ''x.com'' (Some 2) (Some 1)))) [] = None
   \<and> fst (handle_get_code
            (example_env (example_link\<lparr>sl_error_template_id := Some 4, sl_expire_at := Some 5\<rparr>)) 1000
            (example_request ''abc123'' None None None))
       = Json ''expired'' ''Link expired'' 410"
proof -
  define req where "req = example_request ''abc123'' None None None"
  define l where "l = example_link\<lparr>sl_error_template_id := Some 4, sl_expire_at := Some 5\<rparr>"
  define r where "r = ShortLinkRow.extend l (ShortLink.fields ''x.com'' (Some 2) (Some 1))"
  have found: "find_short_link (shorturl (example_env l)) (param_code req) (host_of req) = Some r"
    unfolding req_def r_def by (rule example_found) (simp_all add: l_def example_link_def)
  have ids: "sl_error_template_id r = Some 4" "domain_error_template_id r = Some 1"
    by (simp_all add: r_def l_def example_link_def ShortLinkRow.extend_def ShortLink.fields_def)
  have db: "shorturl (example_env l) = example_db l" "R2_BUCKET (example_env l) = None"
    by (simp_all add: example_env_def)
  have t1: "getTemplateContent (example_db l) 1 [] None = Some ''error {{http_status}}''"
    using example_template_lookup(1) [of l "[]"] by (simp add: db apply_replacements_Nil)
  have t4: "getTemplateContent (example_db l) 4 repl None = None" for repl
    using example_template_lookup(4) [of l repl] by (simp add: db)
  have absent: "getErrorPageHtml (example_db l) None h (Some r) repl = None" for h repl
    by (simp add: getErrorPageHtml_def nullish_def ids t4)
  have "is_expired r 1000"
    by (simp add: is_expired_def r_def l_def example_link_def ShortLinkRow.extend_def)
  then have "fst (handle_get_code (example_env l) 1000 req) = Json ''expired'' ''Link expired'' 410"
    by (subst handle_found [OF found]) (simp add: db absent html_or_json_def or_null_def)
  with ids t1 absent [of "''x.com''" "[]"] show ?thesis
    unfolding req_def r_def l_def by (intro conjI)
qed

text \<open>
  C7 (amended). Template resolution for a role uses the link-level template id whenever
  that id is set, and the domain-level id only when the link-level id is null. It reports
  absent when the chosen id is null or 0 and when no active template has the chosen id;
  so a link-level id whose template is inactive or missing makes resolution report
  absent, whatever the domain-level id is. Stated for the error role (getErrorPageHtml)
  and for the password challenge of the password block.
\<close>

theorem C7_template_resolution:
  "(sl_error_template_id sl = Some i \<longrightarrow>
      getErrorPageHtml db r2 host (Some sl) repl
        = (if i = 0 then None else getTemplateContent db i repl r2))
   \<and> (sl_error_template_id sl = None \<longrightarrow>
      getErrorPageHtml db r2 host (Some sl) repl
        = (case domain_error_template_id sl of
             None \<Rightarrow> None
           | Some j \<Rightarrow> (if j = 0 then None else getTemplateContent db j repl r2)))
   \<and> ((\<forall>t \<in> set (redirect_templates db). tpl_id t = i \<longrightarrow> tpl_is_active t \<noteq> 1) \<longrightarrow>
      getTemplateContent db i repl r2 = None)
   \<and> (sl_error_template_id sl = Some i
       \<and> (\<forall>t \<in> set (redirect_templates db). tpl_id t = i \<longrightarrow> tpl_is_active t \<noteq> 1) \<longrightarrow>
      getErrorPageHtml db r2 host (Some sl) repl = None)
   \<and> (truthy_str (sl_password sl) \<and> sl_password_template_id sl = Some i
       \<and> (\<forall>t \<in> set (redirect_templates (shorturl env)). tpl_id t = i \<longrightarrow> tpl_is_active t \<noteq> 1) \<longrightarrow>
      password_block env sl b None
        = Some (Text ''Password required'' 401,
                recordVisitEvent (shorturl env) (blocked_event b ''password'' 401)))"
proof (intro conjI impI)
  assume "sl_error_template_id sl = Some i"
  then show "getErrorPageHtml db r2 host (Some sl) repl
               = (if i = 0 then None else getTemplateContent db i repl r2)"
    by (simp add: getErrorPageHtml_def nullish_def)
next
  assume "sl_error_template_id sl = None"
  then show "getErrorPageHtml db r2 host (Some sl) repl
               = (case domain_error_template_id sl of
                    None \<Rightarrow> None
                  | Some j \<Rightarrow> (if j = 0 then None else getTemplateContent db j repl r2))"
    by (simp add: getErrorPageHtml_def nullish_def)
next
  assume "\<forall>t \<in> set (redirect_templates db). tpl_id t = i \<longrightarrow> tpl_is_active t \<noteq> 1"
  then show "getTemplateContent db i repl r2 = None"
    by (rule getTemplateContent_inactive)
next
  assume "sl_error_template_id sl = Some i
          \<and> (\<forall>t \<in> set (redirect_templates db). tpl_id t = i \<longrightarrow> tpl_is_active t \<noteq> 1)"
  then show "getErrorPageHtml db r2 host (Some sl) repl = None"
    by (simp add: getErrorPageHtml_def nullish_def getTemplateContent_inactive)
next
  assume "truthy_str (sl_password sl) \<and> sl_password_template_id sl = Some i
          \<and> (\<forall>t \<in> set (redirect_templates (shorturl env)). tpl_id t = i \<longrightarrow> tpl_is_active t \<noteq> 1)"
  then show "password_block env sl b None
               = Some (Text ''Password required'' 401,
                       recordVisitEvent (shorturl env) (blocked_event b ''password'' 401))"
    by (simp add: password_block_def nullish_def getTemplateContent_inactive)
qed

theorem C7_template_resolution_witness:
  "getErrorPageHtml (example_db example_link) None ''x.com''
      (Some (ShortLinkRow.extend (example_link\<lparr>sl_error_template_id := Some 4\<rparr>)
               (ShortLink.fields ''x.com'' (Some 2) (Some 1)))) [] = None
   \<and> getErrorPageHtml (example_db example_link) None ''x.com''
      (Some (ShortLinkRow.extend example_link (ShortLink.fields ''x.com'' (Some 2) (Some 1)))) []
       = Some ''error {{http_status}}''"
proof -
  define r where "r = ShortLinkRow.extend example_link (ShortLink.fields ''x.com'' (Some 2) (Some 1))"
  define r' where "r' = ShortLinkRow.extend (example_link\<lparr>sl_error_template_id := Some 4\<rparr>)
                          (ShortLink.fields ''x.com'' (Some 2) (Some 1))"
  have a: "sl_error_template_id r' = Some 4
           \<and> (\<forall>t \<in> set (redirect_templates (example_db example_link)). tpl_id t = 4 \<longrightarrow> tpl_is_active t \<noteq> 1)"
    by (simp add: r'_def example_link_def ShortLinkRow.extend_def example_db_def
          example_templates_def inline_template_def)
  have b: "sl_error_template_id r = None" and c: "domain_error_template_id r = Some 1"
    by (simp_all add: r_def example_link_def ShortLinkRow.extend_def ShortLink.fields_def)
  note inst' = C7_template_resolution [where sl = r' and i = 4 and db = "example_db example_link"
                 and ?r2.0 = None and host = "''x.com''" and repl = "[]"]
  note inst = C7_template_resolution [where sl = r and db = "example_db example_link"
                 and ?r2.0 = None and host = "''x.com''" and repl = "[]"]
  have "getErrorPageHtml (example_db example_link) None ''x.com'' (Some r') [] = None"
    using inst' a by blast
  moreover have "getErrorPageHtml (example_db example_link) None ''x.com'' (Some r) []
                   = (case domain_error_template_id r of
                        None \<Rightarrow> None
                      | Some j \<Rightarrow> (if j = 0 then None
                                    else getTemplateContent (example_db example_link) j [] None))"
    using inst b by blast
  moreover have "getTemplateContent (example_db example_link) 1 [] None = Some ''error {{http_status}}''"
    using example_template_lookup(1) [of example_link "[]"]
    by (simp add: example_env_def apply_replacements_Nil)
  ultimately show ?thesis
    unfolding r_def [symmetric] r'_def [symmetric] by (simp add: c)
qed

subsection \<open>The forced ticket check\<close>








end
